theory Spec2Isabelle
  imports Main "HOL-Library.Word" "HOL-Library.AList"
begin

section \<open>Data model\<close>

text \<open>
  The generator keeps its state in two JSON documents of the job's output directory
  (\<^verbatim>\<open>status.json\<close> and \<^verbatim>\<open>manifest.json\<close>) and talks to two external models: an
  image synthesiser (\<^verbatim>\<open>generate_image\<close>) and a vision judge (\<^verbatim>\<open>verify_image\<close>,
  \<^verbatim>\<open>verify_interior_image\<close>). Python's unbounded integers are \<open>int\<close>, \<^verbatim>\<open>bytes\<close> is a
  list of octets, a JSON object whose order matters (the score breakdown, iterated by
  \<^verbatim>\<open>.items()\<close>) is an association list.
\<close>

type_synonym bytes = "8 word list"
type_synonym breakdown = "(string \<times> int) list"

text \<open>
  The dictionary returned by the judge. Every key is read with \<^verbatim>\<open>.get(key, default)\<close>,
  so every key may be missing: \<open>None\<close> is the missing key.
\<close>

record verification =
  total_score :: "int option"
  breakdown :: "breakdown option"
  issues :: "string list option"
  suggestions :: "string list option"

text \<open>\<^verbatim>\<open>d.get(key, default)\<close> on such a key.\<close>

definition dict_get :: "'a option \<Rightarrow> 'a \<Rightarrow> 'a" where
  "dict_get v dflt = (case v of None \<Rightarrow> dflt | Some x \<Rightarrow> x)"

text \<open>
  An entry of the manifest's \<^verbatim>\<open>images\<close> list. The keys are those of the dictionaries
  built in \<^verbatim>\<open>generate_project.main\<close> and \<^verbatim>\<open>regenerate_single.main\<close>; a key that some of
  these dictionaries leave out is an option (\<^verbatim>\<open>id\<close> and \<^verbatim>\<open>created_at\<close> are absent from
  the entry that regeneration builds, \<^verbatim>\<open>scoreBreakdown\<close> from the hero entry,
  \<^verbatim>\<open>regenerated_at\<close> from the entries of the first run). \<^verbatim>\<open>id\<close> and \<^verbatim>\<open>attempts\<close>
  are renamed, the first clashes with the identity function and the second with the
  loop variable.
\<close>

record image_entry =
  entry_id :: "string option"
  filename :: string
  url :: string
  variationType :: string
  category :: string
  name :: string
  isHero :: bool
  consistencyScore :: int
  entry_attempts :: int
  lowConfidence :: bool
  scoreBreakdown :: "breakdown option"
  aspectRatio :: string
  created_at :: "string option"
  regenerated_at :: "string option"

text \<open>The values stored under the keys of \<^verbatim>\<open>status.json\<close>.\<close>

datatype jval = JInt int | JStr string | JBool bool | JImages "image_entry list"

text \<open>
  A JSON document with string keys is a Python dictionary: an association list with
  distinct keys in insertion order. \<^verbatim>\<open>d[k] = v\<close> overwrites in place or appends,
  \<^verbatim>\<open>d.update(e)\<close> does so for each item of \<^verbatim>\<open>e\<close> in turn, \<^verbatim>\<open>d.get(k)\<close> looks up.
\<close>

type_synonym status_doc = "(string \<times> jval) list"

definition dict_set :: "string \<Rightarrow> 'v \<Rightarrow> (string \<times> 'v) list \<Rightarrow> (string \<times> 'v) list" where
  "dict_set k v d = AList.update k v d"

definition dict_update :: "(string \<times> 'v) list \<Rightarrow> (string \<times> 'v) list \<Rightarrow> (string \<times> 'v) list" where
  "dict_update d e = fold (\<lambda>(k, v) d. dict_set k v d) e d"

definition dict_lookup :: "(string \<times> 'v) list \<Rightarrow> string \<Rightarrow> 'v option" where
  "dict_lookup d k = map_of d k"

text \<open>
  \<^verbatim>\<open>manifest.json\<close>: the image list (read with \<^verbatim>\<open>.get("images", [])\<close> in one place
  and with \<^verbatim>\<open>["images"]\<close> in others, so the key may be missing) and the two
  timestamps. The remaining keys (prompt, parsed attributes, suburb, model) are job
  metadata that no operation below reads back and are left out.
\<close>

record manifest =
  m_job_id :: string
  m_created_at :: string
  m_images :: "image_entry list option"
  m_updated_at :: "string option"

datatype py_error = KeyError | FileNotFoundError | SystemExit int

text \<open>Which judge is called: \<^verbatim>\<open>verify_image\<close> or \<^verbatim>\<open>verify_interior_image\<close>.\<close>

datatype profile = Exterior | Interior

text \<open>
  The observable events of a run, recorded in order (a ghost variable): every call of
  the synthesiser with its instruction, reference image path and answer, every call of a
  judge with the shot it judges, and every document written to \<^verbatim>\<open>status.json\<close>.
\<close>

datatype event =
    Generate string "string option" "bytes option"
  | Verify profile string verification
  | StatusWrite status_doc

text \<open>
  The world: the files of the output directory, the two documents (\<open>None\<close> when the
  file does not exist), a clock that advances with every \<^verbatim>\<open>datetime.now()\<close> and every
  call of an external model, and the event log.
\<close>

record world =
  files :: "string \<rightharpoonup> bytes"
  status_json :: "status_doc option"
  manifest_json :: "manifest option"
  clock :: nat
  log :: "event list"

text \<open>
  The attributes that \<^verbatim>\<open>parse_user_prompt\<close> (a call of the text model) extracts from the
  request, as far as the driver reads them; \<open>None\<close> is a missing or null key.
\<close>

text \<open>
  What the program does not decide: the two configuration values read from the process
  environment, the clock, the external models and the prompt builders (opaque text, as
  the models are). An external answer may depend on the moment of the call, so two calls
  with the same arguments may differ.
\<close>

record parsed =
  p_project_type :: "string option"
  p_num_units :: "int option"

record env =
  VERIFICATION_THRESHOLD :: int
  MAX_REGEN_ATTEMPTS :: int
  now_isoformat :: "nat \<Rightarrow> string"
  now_strftime :: "nat \<Rightarrow> string"
  image_model :: "nat \<Rightarrow> string \<Rightarrow> string option \<Rightarrow> string \<Rightarrow> bytes option"
  vision_model :: "nat \<Rightarrow> profile \<Rightarrow> string \<Rightarrow> string \<Rightarrow> string \<Rightarrow> verification"
  parse_user_prompt :: "string \<Rightarrow> parsed"
  build_variation_prompt :: "string \<Rightarrow> string"
  build_hero_generation_prompt :: "string \<Rightarrow> string"

section \<open>Strings\<close>

text \<open>\<^verbatim>\<open>str(n)\<close> for an integer, as an f-string prints it.\<close>

fun digits :: "nat \<Rightarrow> string" where
  "digits n = (if n < 10 then [''0123456789'' ! n]
               else digits (n div 10) @ [''0123456789'' ! (n mod 10)])"

declare digits.simps [simp del]

definition str_int :: "int \<Rightarrow> string" where
  "str_int i = (if i < 0 then CHR ''-'' # digits (nat (- i)) else digits (nat i))"

text \<open>\<^verbatim>\<open>sep.join(parts)\<close>.\<close>

fun join :: "string \<Rightarrow> string list \<Rightarrow> string" where
  "join sep [] = []"
| "join sep [x] = x"
| "join sep (x # y # ys) = x @ sep @ join sep (y # ys)"

definition newline :: string where
  "newline = [CHR 0x0A]"

definition quote :: string where
  "quote = [CHR 0x27]"

text \<open>Truth value of an optional \<^verbatim>\<open>bytes\<close> or \<^verbatim>\<open>str\<close>: \<^verbatim>\<open>None\<close> and the empty value are false.\<close>

definition truthy :: "'a list option \<Rightarrow> bool" where
  "truthy v = (case v of None \<Rightarrow> False | Some xs \<Rightarrow> xs \<noteq> [])"

section \<open>Fixing prompt\<close>

text \<open>
  \<^verbatim>\<open>build_fixing_prompt\<close> of \<^verbatim>\<open>generate_project.py\<close>: three loops append to \<^verbatim>\<open>lines\<close>,
  which starts with the opening tag and ends with the closing tag.
\<close>

definition fix_line :: "string \<Rightarrow> int \<Rightarrow> string" where
  "fix_line criterion score =
     ''<fix criterion='' @ quote @ criterion @ quote @ '' score='' @ quote @ str_int score
       @ ''/20'' @ quote @ ''>Improve this aspect significantly</fix>''"

definition issue_line :: "string \<Rightarrow> string" where
  "issue_line issue = ''<issue>'' @ issue @ ''</issue>''"

definition suggestion_line :: "string \<Rightarrow> string" where
  "suggestion_line suggestion = ''<suggestion>'' @ suggestion @ ''</suggestion>''"

definition fixing_lines :: "verification \<Rightarrow> string list" where
  "fixing_lines verification_result =
     (let lines0 = [''<fixes_required>''];
          lines1 = fold (\<lambda>(criterion, score) ls.
                      if score < 16 then ls @ [fix_line criterion score] else ls)
                    (dict_get (breakdown verification_result) []) lines0;
          lines2 = fold (\<lambda>issue ls. ls @ [issue_line issue])
                    (dict_get (issues verification_result) []) lines1;
          lines3 = fold (\<lambda>suggestion ls. ls @ [suggestion_line suggestion])
                    (dict_get (suggestions verification_result) []) lines2
      in lines3 @ [''</fixes_required>''])"

definition build_fixing_prompt :: "verification \<Rightarrow> string" where
  "build_fixing_prompt verification_result = join newline (fixing_lines verification_result)"

section \<open>World operations\<close>

text \<open>\<^verbatim>\<open>Path(output_dir) / name\<close>, as a string.\<close>

definition path_join :: "string \<Rightarrow> string \<Rightarrow> string" where
  "path_join dir file = dir @ ''/'' @ file"

text \<open>
  \<^verbatim>\<open>update_status\<close>: the partial record is merged into the existing document (new keys
  overwrite, absent keys are kept), \<^verbatim>\<open>updated_at\<close> is set, the document is written.
\<close>

definition update_status :: "env \<Rightarrow> status_doc \<Rightarrow> world \<Rightarrow> world" where
  "update_status env status_data w =
     (let existing = (case status_json w of None \<Rightarrow> [] | Some d \<Rightarrow> d);
          existing = dict_update existing status_data;
          existing = dict_set ''updated_at'' (JStr (now_isoformat env (clock w))) existing
      in w\<lparr>status_json := Some existing, clock := clock w + 1,
            log := log w @ [StatusWrite existing]\<rparr>)"

text \<open>
  \<^verbatim>\<open>generate_image\<close>: the reference image is sent only when its path is non-empty and
  the file exists; every exception of the call is caught and gives \<^verbatim>\<open>None\<close>, so the
  answer is the image or nothing.
\<close>

definition generate_image ::
  "env \<Rightarrow> string \<Rightarrow> string option \<Rightarrow> string \<Rightarrow> world \<Rightarrow> bytes option \<times> world" where
  "generate_image env prompt reference_image_path aspect_ratio w =
     (let reference = (case reference_image_path of
                         None \<Rightarrow> None
                       | Some p \<Rightarrow> if p \<noteq> [] \<and> files w p \<noteq> None then Some p else None);
          image_data = image_model env (clock w) prompt reference aspect_ratio
      in (image_data, w\<lparr>clock := clock w + 1,
                         log := log w @ [Generate prompt reference_image_path image_data]\<rparr>))"

text \<open>
  \<^verbatim>\<open>verify_image\<close> and \<^verbatim>\<open>verify_interior_image\<close>: each sends its own rubric to the vision
  model and returns the parsed dictionary; on any exception it returns a dictionary with
  \<^verbatim>\<open>total_score\<close> 0, which is one of the answers \<open>vision_model\<close> may give.
\<close>

definition verify_image ::
  "env \<Rightarrow> string \<Rightarrow> string \<Rightarrow> string \<Rightarrow> world \<Rightarrow> verification \<times> world" where
  "verify_image env hero_image_path generated_image_path shot_type w =
     (let v = vision_model env (clock w) Exterior hero_image_path generated_image_path shot_type
      in (v, w\<lparr>clock := clock w + 1, log := log w @ [Verify Exterior shot_type v]\<rparr>))"

definition verify_interior_image ::
  "env \<Rightarrow> string \<Rightarrow> string \<Rightarrow> string \<Rightarrow> world \<Rightarrow> verification \<times> world" where
  "verify_interior_image env hero_image_path generated_image_path shot_type w =
     (let v = vision_model env (clock w) Interior hero_image_path generated_image_path shot_type
      in (v, w\<lparr>clock := clock w + 1, log := log w @ [Verify Interior shot_type v]\<rparr>))"


definition INTERIOR_SHOT_IDS :: "string list" where
  "INTERIOR_SHOT_IDS =
     [''interior_living'', ''interior_kitchen'', ''interior_master'', ''interior_bathroom'',
      ''spatial_staircase'', ''spatial_window'', ''spatial_volume'',
      ''lifestyle_morning'', ''lifestyle_evening'']"

definition is_interior_shot :: "string \<Rightarrow> bool" where
  "is_interior_shot shot_id = (shot_id \<in> set INTERIOR_SHOT_IDS)"

section \<open>The refinement loop\<close>

text \<open>
  A shot of the plan (\<^verbatim>\<open>SHOT_TYPES\<close>); its prompt text is opaque and reaches the
  synthesiser through \<open>build_variation_prompt\<close>.
\<close>

record shot =
  sh_id :: string
  sh_category :: string
  sh_name :: string
  sh_order :: int

text \<open>
  One attempt as the loop saw it (a ghost record): the instruction sent, and either no
  image, or the image and the judge's answer.
\<close>

datatype attempt =
    Void string
  | Judged string bytes verification

text \<open>The local variables of the loop, and the attempts made so far.\<close>

record loop_state =
  attempts :: int
  best_score :: int
  best_image_data :: "bytes option"
  best_breakdown :: "breakdown option"
  fixing_prompt :: "string option"
  trace :: "attempt list"

definition initial_loop_state :: loop_state where
  "initial_loop_state =
     \<lparr>attempts = 0, best_score = 0, best_image_data = None, best_breakdown = None,
      fixing_prompt = None, trace = []\<rparr>"

text \<open>
  The loop is the same in \<^verbatim>\<open>generate_project.main\<close> and \<^verbatim>\<open>regenerate_single.main\<close>
  but for the name of the temporary file and the status update before judging, which
  only the first makes.
\<close>

datatype script = GenerateProject | RegenerateSingle

datatype control = Continue | Break

definition temp_name :: "script \<Rightarrow> string \<Rightarrow> string" where
  "temp_name script shot_id =
     (case script of GenerateProject \<Rightarrow> ''temp_'' @ shot_id @ ''.png''
                   | RegenerateSingle \<Rightarrow> ''temp_regen_'' @ shot_id @ ''.png'')"

text \<open>The body of the \<^verbatim>\<open>while\<close> loop: one attempt.\<close>

definition attempt_body ::
  "env \<Rightarrow> script \<Rightarrow> string \<Rightarrow> shot \<Rightarrow> string \<Rightarrow> string \<Rightarrow> world \<Rightarrow> loop_state
     \<Rightarrow> control \<times> world \<times> loop_state" where
  "attempt_body env script output_dir shot hero_path aspect_ratio w s =
     (let s = s\<lparr>attempts := attempts s + 1\<rparr>;
          variation_prompt = build_variation_prompt env (sh_id shot);
          variation_prompt =
            (if truthy (fixing_prompt s)
             then variation_prompt @ newline @ newline @ dict_get (fixing_prompt s) []
             else variation_prompt);
          (image_data, w) = generate_image env variation_prompt (Some hero_path) aspect_ratio w
      in if \<not> truthy image_data
         then (Continue, w, s\<lparr>trace := trace s @ [Void variation_prompt]\<rparr>)
         else
           let data = dict_get image_data [];
               temp_path = path_join output_dir (temp_name script (sh_id shot));
               w = w\<lparr>files := (files w)(temp_path \<mapsto> data)\<rparr>;
               w = (case script of
                      GenerateProject \<Rightarrow>
                        update_status env
                          [(''status'', JStr ''verifying''),
                           (''message'', JStr (''Verifying '' @ sh_name shot @ ''...''))] w
                    | RegenerateSingle \<Rightarrow> w);
               (verification, w) =
                 (if is_interior_shot (sh_id shot)
                  then verify_interior_image env hero_path temp_path (sh_id shot) w
                  else verify_image env hero_path temp_path (sh_id shot) w);
               score = dict_get (total_score verification) 0;
               s = s\<lparr>trace := trace s @ [Judged variation_prompt data verification]\<rparr>;
               s = (if score > best_score s
                    then s\<lparr>best_score := score, best_image_data := image_data,
                           best_breakdown := Some (dict_get (breakdown verification) [])\<rparr>
                    else s);
               w = w\<lparr>files := (files w)(temp_path := None)\<rparr>
           in if score > VERIFICATION_THRESHOLD env
              then (Break, w, s)
              else (Continue, w, s\<lparr>fixing_prompt := Some (build_fixing_prompt verification)\<rparr>))"

text \<open>\<^verbatim>\<open>while attempts < MAX_REGEN_ATTEMPTS\<close>.\<close>

function regen_loop ::
  "env \<Rightarrow> script \<Rightarrow> string \<Rightarrow> shot \<Rightarrow> string \<Rightarrow> string \<Rightarrow> world \<Rightarrow> loop_state
     \<Rightarrow> world \<times> loop_state" where
  "regen_loop env script output_dir shot hero_path aspect_ratio w s =
     (if attempts s < MAX_REGEN_ATTEMPTS env then
        (case attempt_body env script output_dir shot hero_path aspect_ratio w s of
           (Break, w', s') \<Rightarrow> (w', s')
         | (Continue, w', s') \<Rightarrow>
             regen_loop env script output_dir shot hero_path aspect_ratio w' s')
      else (w, s))"
  by pat_completeness auto
termination
proof (relation "measure (\<lambda>(env, script, output_dir, shot, hero_path, aspect_ratio, w, s).
                   nat (MAX_REGEN_ATTEMPTS env - attempts s))")
qed (auto simp: attempt_body_def Let_def split: prod.splits if_splits)

declare regen_loop.simps [simp del]

section \<open>The shot plan\<close>

definition mk_shot :: "string \<Rightarrow> string \<Rightarrow> string \<Rightarrow> int \<Rightarrow> shot" where
  "mk_shot i c n k = \<lparr>sh_id = i, sh_category = c, sh_name = n, sh_order = k\<rparr>"

definition SHOT_TYPES :: "shot list" where
  "SHOT_TYPES =
     [mk_shot ''hero_facade'' ''hero_shots'' ''Primary Facade'' 1,
      mk_shot ''hero_twilight'' ''hero_shots'' ''Twilight Hero'' 2,
      mk_shot ''hero_elevated'' ''hero_shots'' ''Elevated 3/4 Angle'' 3,
      mk_shot ''context_street'' ''site_context'' ''Street Scene'' 4,
      mk_shot ''context_aerial'' ''site_context'' ''Aerial/Drone View'' 5,
      mk_shot ''context_approach'' ''site_context'' ''Pedestrian Approach'' 6,
      mk_shot ''feature_entry'' ''architectural_features'' ''Entry Threshold'' 7,
      mk_shot ''feature_material'' ''architectural_features'' ''Material Detail'' 8,
      mk_shot ''feature_signature'' ''architectural_features'' ''Signature Element'' 9,
      mk_shot ''interior_living'' ''interior_spaces'' ''Living to Outdoor'' 10,
      mk_shot ''interior_kitchen'' ''interior_spaces'' ''Kitchen'' 11,
      mk_shot ''interior_master'' ''interior_spaces'' ''Master Suite'' 12,
      mk_shot ''interior_bathroom'' ''interior_spaces'' ''Bathroom'' 13,
      mk_shot ''spatial_staircase'' ''spatial_experience'' ''Staircase Void'' 14,
      mk_shot ''spatial_window'' ''spatial_experience'' ''Window Moment'' 15,
      mk_shot ''spatial_volume'' ''spatial_experience'' ''Volume Shot'' 16,
      mk_shot ''lifestyle_morning'' ''lifestyle_atmosphere'' ''Morning Light'' 17,
      mk_shot ''lifestyle_evening'' ''lifestyle_atmosphere'' ''Evening Entertaining'' 18]"

definition MULTI_UNIT_EXTRA_SHOTS :: "shot list" where
  "MULTI_UNIT_EXTRA_SHOTS =
     [mk_shot ''multi_unit_variety'' ''architectural_features'' ''Unit Variety'' 19,
      mk_shot ''multi_shared_spaces'' ''lifestyle_atmosphere'' ''Shared Spaces'' 20]"

definition get_shot_by_id :: "string \<Rightarrow> shot option" where
  "get_shot_by_id shot_id = find (\<lambda>shot. sh_id shot = shot_id) SHOT_TYPES"

definition get_all_shots_ordered :: "shot list" where
  "get_all_shots_ordered = sort_key sh_order SHOT_TYPES"

definition get_shots_for_project_type :: "string \<Rightarrow> int \<Rightarrow> shot list" where
  "get_shots_for_project_type project_type num_units =
     (let base_shots = get_all_shots_ordered
      in if project_type = ''apartments'' \<or> (project_type = ''townhouses'' \<and> num_units \<ge> 3)
         then base_shots @ sort_key sh_order MULTI_UNIT_EXTRA_SHOTS
         else base_shots)"

definition get_aspect_ratio_for_shot :: "string \<Rightarrow> string" where
  "get_aspect_ratio_for_shot shot_id =
     (let landscape_shots =
            [''hero_facade'', ''hero_twilight'', ''hero_elevated'', ''context_street'',
             ''interior_living'', ''interior_kitchen'', ''interior_master'',
             ''lifestyle_morning'', ''lifestyle_evening'',
             ''multi_unit_variety'', ''multi_shared_spaces''];
          square_shots = [''feature_material''];
          portrait_shots = [''spatial_staircase'', ''spatial_volume'']
      in if shot_id \<in> set landscape_shots then ''16:9''
         else if shot_id \<in> set square_shots then ''1:1''
         else if shot_id \<in> set portrait_shots then ''3:4''
         else ''4:3'')"

section \<open>Manifest operations\<close>

text \<open>
  \<^verbatim>\<open>save_image_to_manifest\<close>: append the entry to the manifest's list (a fresh manifest
  when the file does not exist) and mirror the list into \<^verbatim>\<open>status.json\<close> when that file
  exists. \<^verbatim>\<open>manifest["images"]\<close> raises KeyError on a manifest without the key.
\<close>

definition save_image_to_manifest ::
  "env \<Rightarrow> string \<Rightarrow> image_entry \<Rightarrow> world \<Rightarrow> py_error + world" where
  "save_image_to_manifest env job_id image_data w =
     (let fresh = \<lparr>m_job_id = job_id, m_created_at = now_isoformat env (clock w),
                   m_images = Some [], m_updated_at = None\<rparr>;
          w = w\<lparr>clock := clock w + 1\<rparr>;
          manifest = (case manifest_json w of None \<Rightarrow> fresh | Some m \<Rightarrow> m)
      in case m_images manifest of
           None \<Rightarrow> Inl KeyError
         | Some images \<Rightarrow>
             let images = images @ [image_data];
                 manifest = manifest\<lparr>m_images := Some images,
                                     m_updated_at := Some (now_isoformat env (clock w))\<rparr>;
                 w = w\<lparr>manifest_json := Some manifest, clock := clock w + 1\<rparr>
             in Inr (case status_json w of
                       None \<Rightarrow> w
                     | Some status \<Rightarrow>
                         let status = dict_set ''images'' (JImages images) status
                         in w\<lparr>status_json := Some status,
                               log := log w @ [StatusWrite status]\<rparr>))"

text \<open>
  The loop of \<^verbatim>\<open>update_manifest\<close>: the first entry whose \<^verbatim>\<open>variationType\<close> matches is
  replaced by the new entry, which first takes the old entry's \<^verbatim>\<open>id\<close> (\<^verbatim>\<open>img["id"]\<close>
  raises KeyError when the old entry has none); then \<^verbatim>\<open>break\<close>.
\<close>

fun replace_entry ::
  "string \<Rightarrow> image_entry \<Rightarrow> image_entry list \<Rightarrow> py_error + image_entry list" where
  "replace_entry variation_type new_image_data [] = Inr []"
| "replace_entry variation_type new_image_data (img # rest) =
     (if variationType img = variation_type then
        (case entry_id img of
           None \<Rightarrow> Inl KeyError
         | Some i \<Rightarrow> Inr (new_image_data\<lparr>entry_id := Some i\<rparr> # rest))
      else
        (case replace_entry variation_type new_image_data rest of
           Inl e \<Rightarrow> Inl e
         | Inr rest' \<Rightarrow> Inr (img # rest')))"

text \<open>
  \<^verbatim>\<open>update_manifest\<close> of \<^verbatim>\<open>regenerate_single.py\<close>. The loop runs over
  \<^verbatim>\<open>manifest.get("images", [])\<close>; the mirror into \<^verbatim>\<open>status.json\<close> reads
  \<^verbatim>\<open>manifest["images"]\<close>.
\<close>

definition update_manifest ::
  "env \<Rightarrow> string \<Rightarrow> image_entry \<Rightarrow> world \<Rightarrow> py_error + world" where
  "update_manifest env variation_type new_image_data w =
     (case manifest_json w of
        None \<Rightarrow> Inl FileNotFoundError
      | Some manifest \<Rightarrow>
          (case replace_entry variation_type new_image_data (dict_get (m_images manifest) []) of
             Inl e \<Rightarrow> Inl e
           | Inr images \<Rightarrow>
               let manifest = (case m_images manifest of
                                 None \<Rightarrow> manifest
                               | Some _ \<Rightarrow> manifest\<lparr>m_images := Some images\<rparr>);
                   manifest = manifest\<lparr>m_updated_at := Some (now_isoformat env (clock w))\<rparr>;
                   w = w\<lparr>manifest_json := Some manifest, clock := clock w + 1\<rparr>
               in case status_json w of
                    None \<Rightarrow> Inr w
                  | Some status \<Rightarrow>
                      (case m_images manifest of
                         None \<Rightarrow> Inl KeyError
                       | Some images \<Rightarrow>
                           let status = dict_set ''images'' (JImages images) status
                           in Inr (w\<lparr>status_json := Some status,
                                     log := log w @ [StatusWrite status]\<rparr>))))"

section \<open>The driver of \<^verbatim>\<open>generate_project.py\<close>\<close>

text \<open>
  The arguments of \<^verbatim>\<open>main\<close>. The suburb override only changes prompt text and is left
  to the prompt builders.
\<close>

record job =
  a_user_prompt :: string
  a_output_dir :: string
  a_job_id :: string
  a_project_type :: "string option"
  a_from_hero :: "string option"

definition IMAGE_MODEL :: string where
  "IMAGE_MODEL = ''gemini-3-pro-image-preview''"

text \<open>\<^verbatim>\<open>Path(p).name\<close>: the last component of a path.\<close>

definition path_name :: "string \<Rightarrow> string" where
  "path_name p = rev (takeWhile (\<lambda>c. c \<noteq> CHR ''/'') (rev p))"

text \<open>
  \<^verbatim>\<open>int((completed / total_shots) * 100)\<close>. The source divides and multiplies in double
  precision and truncates; for the two plan sizes, 18 and 20, and every count from 1 to
  the plan size, that computation yields the floor of the exact quotient, which is what
  is written here.
\<close>

definition shot_progress :: "int \<Rightarrow> int \<Rightarrow> int" where
  "shot_progress completed total_shots = (completed * 100) div total_shots"

text \<open>The manifest entry of the hero image, the same dictionary in both branches.\<close>

definition hero_entry :: "job \<Rightarrow> string \<Rightarrow> string \<Rightarrow> string \<Rightarrow> image_entry" where
  "hero_entry job hero_filename hero_aspect_ratio now =
     \<lparr>entry_id = Some (a_job_id job @ ''_1''),
      filename = hero_filename,
      url = ''/api/images/'' @ a_job_id job @ ''/'' @ hero_filename,
      variationType = ''hero_facade'',
      category = ''hero_shots'',
      name = ''Primary Facade'',
      isHero = True,
      consistencyScore = 100,
      entry_attempts = 1,
      lowConfidence = False,
      scoreBreakdown = None,
      aspectRatio = hero_aspect_ratio,
      created_at = Some now,
      regenerated_at = None\<rparr>"

text \<open>
  The hero stage of \<^verbatim>\<open>main\<close>: use the approved hero image when \<^verbatim>\<open>from_hero\<close> names an
  existing file, else synthesise one without a reference. The result is the hero's path,
  or \<open>None\<close> when \<^verbatim>\<open>main\<close> has written the error status and returned.
\<close>

definition hero_stage ::
  "env \<Rightarrow> job \<Rightarrow> string \<Rightarrow> int \<Rightarrow> string \<Rightarrow> world \<Rightarrow> py_error + string option \<times> world" where
  "hero_stage env job timestamp total_shots hero_aspect_ratio w =
     (if truthy (a_from_hero job) \<and> files w (dict_get (a_from_hero job) []) \<noteq> None then
        let w = update_status env
                  [(''status'', JStr ''generating''),
                   (''progress'', JInt 10),
                   (''currentImage'', JInt 1),
                   (''totalImages'', JInt total_shots),
                   (''currentVariation'', JStr ''hero_facade''),
                   (''message'', JStr ''Using approved hero image...'')] w;
            hero_path = dict_get (a_from_hero job) [];
            hero_filename = path_name hero_path;
            output_hero_path = path_join (a_output_dir job) hero_filename;
            w = (if hero_path \<noteq> output_hero_path
                 then w\<lparr>files := (files w)(output_hero_path := files w hero_path)\<rparr> else w);
            hero_path = (if hero_path \<noteq> output_hero_path then output_hero_path else hero_path);
            entry = hero_entry job hero_filename hero_aspect_ratio (now_isoformat env (clock w));
            w = w\<lparr>clock := clock w + 1\<rparr>;
            already = (case manifest_json w of
                         None \<Rightarrow> False
                       | Some existing_manifest \<Rightarrow>
                           list_ex isHero (dict_get (m_images existing_manifest) []))
        in if already then Inr (Some hero_path, w)
           else (case save_image_to_manifest env (a_job_id job) entry w of
                   Inl e \<Rightarrow> Inl e
                 | Inr w \<Rightarrow> Inr (Some hero_path, w))
      else
        let w = update_status env
                  [(''status'', JStr ''generating_hero''),
                   (''progress'', JInt 5),
                   (''currentImage'', JInt 1),
                   (''totalImages'', JInt 18),
                   (''currentVariation'', JStr ''hero_facade''),
                   (''message'', JStr ''Generating primary facade (hero image)...'')] w;
            hero_prompt = build_hero_generation_prompt env (a_user_prompt job);
            (hero_image_data, w) = generate_image env hero_prompt None hero_aspect_ratio w
        in if \<not> truthy hero_image_data then
             Inr (None, update_status env
                          [(''status'', JStr ''error''),
                           (''message'', JStr ''Failed to generate hero image'')] w)
           else
             let hero_filename = ''hero_facade_'' @ timestamp @ ''.png'';
                 hero_path = path_join (a_output_dir job) hero_filename;
                 w = w\<lparr>files := (files w)(hero_path \<mapsto> dict_get hero_image_data [])\<rparr>;
                 entry = hero_entry job hero_filename hero_aspect_ratio
                           (now_isoformat env (clock w));
                 w = w\<lparr>clock := clock w + 1\<rparr>
             in case save_image_to_manifest env (a_job_id job) entry w of
                  Inl e \<Rightarrow> Inl e
                | Inr w \<Rightarrow> Inr (Some hero_path, w))"

text \<open>
  The manifest entry that \<^verbatim>\<open>main\<close> builds for a shot from the loop's variables once
  the loop has ended.
\<close>

definition shot_entry ::
  "env \<Rightarrow> job \<Rightarrow> string \<Rightarrow> shot \<Rightarrow> string \<Rightarrow> int \<Rightarrow> string \<Rightarrow> loop_state \<Rightarrow> image_entry" where
  "shot_entry env job timestamp shot aspect_ratio completed now s =
     (let low_confidence = (if best_score s \<le> VERIFICATION_THRESHOLD env then True else False);
          fname = sh_id shot @ ''_'' @ timestamp @ ''.png''
      in \<lparr>entry_id = Some (a_job_id job @ ''_'' @ str_int (completed + 1)),
          filename = fname,
          url = ''/api/images/'' @ a_job_id job @ ''/'' @ fname,
          variationType = sh_id shot,
          category = sh_category shot,
          name = sh_name shot,
          isHero = False,
          consistencyScore = best_score s,
          entry_attempts = attempts s,
          lowConfidence = low_confidence,
          scoreBreakdown = best_breakdown s,
          aspectRatio = aspect_ratio,
          created_at = Some now,
          regenerated_at = None\<rparr>)"

text \<open>
  After the loop (\<^verbatim>\<open># Save the best image we got\<close>): when \<^verbatim>\<open>best_image_data\<close> is set the
  image file and the manifest entry are written and \<^verbatim>\<open>completed\<close> is incremented; else
  the shot is skipped (\<^verbatim>\<open>SKIPPED - no image generated\<close>).
\<close>

definition finish_shot ::
  "env \<Rightarrow> job \<Rightarrow> string \<Rightarrow> shot \<Rightarrow> string \<Rightarrow> loop_state \<Rightarrow> world \<Rightarrow> int
     \<Rightarrow> py_error + world \<times> int" where
  "finish_shot env job timestamp shot aspect_ratio s w completed =
     (if truthy (best_image_data s) then
        let entry = shot_entry env job timestamp shot aspect_ratio completed
                      (now_isoformat env (clock w)) s;
            final_path = path_join (a_output_dir job) (filename entry);
            w = w\<lparr>files := (files w)(final_path \<mapsto> dict_get (best_image_data s) []),
                  clock := clock w + 1\<rparr>
        in case save_image_to_manifest env (a_job_id job) entry w of
             Inl e \<Rightarrow> Inl e
           | Inr w \<Rightarrow> Inr (w, completed + 1)
      else Inr (w, completed))"

text \<open>The body of the \<^verbatim>\<open>for\<close> loop over the plan, for a shot other than the hero.\<close>

definition process_shot ::
  "env \<Rightarrow> job \<Rightarrow> string \<Rightarrow> string \<Rightarrow> int \<Rightarrow> shot \<Rightarrow> world \<Rightarrow> int \<Rightarrow> py_error + world \<times> int" where
  "process_shot env job timestamp hero_path total_shots shot w completed =
     (let aspect_ratio = get_aspect_ratio_for_shot (sh_id shot);
          w = update_status env
                [(''status'', JStr ''generating''),
                 (''progress'', JInt (shot_progress completed total_shots)),
                 (''currentImage'', JInt (completed + 1)),
                 (''totalImages'', JInt total_shots),
                 (''currentVariation'', JStr (sh_id shot)),
                 (''message'', JStr (''Generating '' @ sh_name shot @ ''...''))] w;
          (w, s) = regen_loop env GenerateProject (a_output_dir job) shot hero_path aspect_ratio
                     w initial_loop_state
      in finish_shot env job timestamp shot aspect_ratio s w completed)"

text \<open>\<^verbatim>\<open>for i, shot in enumerate(shots_list)\<close>, the hero shot skipped.\<close>

fun shots_loop ::
  "env \<Rightarrow> job \<Rightarrow> string \<Rightarrow> string \<Rightarrow> int \<Rightarrow> shot list \<Rightarrow> world \<Rightarrow> int
     \<Rightarrow> py_error + world \<times> int" where
  "shots_loop env job timestamp hero_path total_shots [] w completed = Inr (w, completed)"
| "shots_loop env job timestamp hero_path total_shots (shot # rest) w completed =
     (if sh_id shot = ''hero_facade''
      then shots_loop env job timestamp hero_path total_shots rest w completed
      else
        (case process_shot env job timestamp hero_path total_shots shot w completed of
           Inl e \<Rightarrow> Inl e
         | Inr (w', completed') \<Rightarrow>
             shots_loop env job timestamp hero_path total_shots rest w' completed'))"

text \<open>\<^verbatim>\<open>main\<close> of \<^verbatim>\<open>generate_project.py\<close>.\<close>

definition generate_project_main :: "env \<Rightarrow> job \<Rightarrow> world \<Rightarrow> py_error + world" where
  "generate_project_main env job w =
     (let w = update_status env
                [(''status'', JStr ''parsing''),
                 (''progress'', JInt 2),
                 (''currentImage'', JInt 0),
                 (''totalImages'', JInt 18),
                 (''message'', JStr ''Analyzing project description...''),
                 (''prompt'', JStr (a_user_prompt job)),
                 (''model'', JStr IMAGE_MODEL)] w;
          parsed = parse_user_prompt env (a_user_prompt job);
          parsed = (if truthy (a_project_type job)
                    then parsed\<lparr>p_project_type := a_project_type job\<rparr> else parsed);
          project_type_final = dict_get (p_project_type parsed) ''dual_occupancy'';
          num_units = (let n = dict_get (p_num_units parsed) 2 in if n = 0 then 2 else n);
          shots_list = get_shots_for_project_type project_type_final num_units;
          total_shots = int (length shots_list);
          w = update_status env
                [(''totalImages'', JInt total_shots),
                 (''message'', JStr ''Project parsed, starting generation...'')] w;
          w = w\<lparr>manifest_json :=
                   Some \<lparr>m_job_id = a_job_id job, m_created_at = now_isoformat env (clock w),
                         m_images = Some [], m_updated_at = None\<rparr>,
                 clock := clock w + 1\<rparr>;
          hero_aspect_ratio = get_aspect_ratio_for_shot ''hero_facade'';
          timestamp = now_strftime env (clock w);
          w = w\<lparr>clock := clock w + 1\<rparr>
      in case hero_stage env job timestamp total_shots hero_aspect_ratio w of
           Inl e \<Rightarrow> Inl e
         | Inr (None, w) \<Rightarrow> Inr w
         | Inr (Some hero_path, w) \<Rightarrow>
             (case shots_loop env job timestamp hero_path total_shots shots_list w 1 of
                Inl e \<Rightarrow> Inl e
              | Inr (w, completed) \<Rightarrow>
                  Inr (update_status env
                         [(''status'', JStr ''complete''),
                          (''progress'', JInt 100),
                          (''currentImage'', JInt total_shots),
                          (''totalImages'', JInt total_shots),
                          (''message'', JStr (''Generated '' @ str_int completed @ '' images''))]
                         w)))"

section \<open>The driver of \<^verbatim>\<open>regenerate_single.py\<close>\<close>

text \<open>The entry that regeneration builds: no \<^verbatim>\<open>id\<close>, and \<^verbatim>\<open>regenerated_at\<close> for the time.\<close>

definition regenerated_entry ::
  "env \<Rightarrow> string \<Rightarrow> string \<Rightarrow> shot \<Rightarrow> string \<Rightarrow> string \<Rightarrow> string \<Rightarrow> loop_state \<Rightarrow> image_entry" where
  "regenerated_entry env job_id variation_type shot aspect_ratio timestamp now s =
     (let low_confidence = (best_score s \<le> VERIFICATION_THRESHOLD env);
          fname = variation_type @ ''_'' @ timestamp @ ''.png''
      in \<lparr>entry_id = None,
          filename = fname,
          url = ''/api/images/'' @ job_id @ ''/'' @ fname,
          variationType = variation_type,
          category = sh_category shot,
          name = sh_name shot,
          isHero = False,
          consistencyScore = best_score s,
          entry_attempts = attempts s,
          lowConfidence = low_confidence,
          scoreBreakdown = best_breakdown s,
          aspectRatio = aspect_ratio,
          created_at = None,
          regenerated_at = Some now\<rparr>)"

text \<open>
  \<^verbatim>\<open>main\<close> of \<^verbatim>\<open>regenerate_single.py\<close>; every \<^verbatim>\<open>sys.exit(1)\<close> is the error
  \<open>SystemExit 1\<close>.
\<close>

definition regenerate_single_main ::
  "env \<Rightarrow> string \<Rightarrow> string \<Rightarrow> string \<Rightarrow> world \<Rightarrow> py_error + world" where
  "regenerate_single_main env job_id variation_type output_dir w =
     (case manifest_json w of
        None \<Rightarrow> Inl (SystemExit 1)
      | Some manifest \<Rightarrow>
     (case get_shot_by_id variation_type of
        None \<Rightarrow> Inl (SystemExit 1)
      | Some shot \<Rightarrow>
     (case find isHero (dict_get (m_images manifest) []) of
        None \<Rightarrow> Inl (SystemExit 1)
      | Some hero_image \<Rightarrow>
          let hero_path = path_join output_dir (filename hero_image)
          in if files w hero_path = None then Inl (SystemExit 1)
             else
               let aspect_ratio = get_aspect_ratio_for_shot variation_type;
                   (w, s) = regen_loop env RegenerateSingle output_dir shot hero_path
                              aspect_ratio w initial_loop_state
               in if truthy (best_image_data s) then
                    let timestamp = now_strftime env (clock w);
                        w = w\<lparr>clock := clock w + 1\<rparr>;
                        entry = regenerated_entry env job_id variation_type shot aspect_ratio
                                  timestamp (now_isoformat env (clock w)) s;
                        final_path = path_join output_dir (filename entry);
                        w = w\<lparr>files := (files w)(final_path \<mapsto> dict_get (best_image_data s) []),
                              clock := clock w + 1\<rparr>
                    in update_manifest env variation_type entry w
                  else Inl (SystemExit 1))))"

section \<open>Reading a loop's trace\<close>

text \<open>The judged score of an answer, as the loop reads it.\<close>

definition score_of :: "verification \<Rightarrow> int" where
  "score_of v = dict_get (total_score v) 0"

fun judged_score :: "attempt \<Rightarrow> int option" where
  "judged_score (Void p) = None"
| "judged_score (Judged p img v) = Some (score_of v)"

text \<open>The scores the judge gave during a shot's attempts, in order.\<close>

definition judged_scores :: "attempt list \<Rightarrow> int list" where
  "judged_scores tr = List.map_filter judged_score tr"

text \<open>An attempt passes when it was judged and its score exceeds the threshold.\<close>

fun passes :: "int \<Rightarrow> attempt \<Rightarrow> bool" where
  "passes threshold (Void p) = False"
| "passes threshold (Judged p img v) = (threshold < score_of v)"

fun produced_image :: "attempt \<Rightarrow> bool" where
  "produced_image (Void p) = False"
| "produced_image (Judged p img v) = True"



text \<open>The instruction the next attempt will send, and the two updates an attempt makes.\<close>

definition instruction :: "env \<Rightarrow> shot \<Rightarrow> loop_state \<Rightarrow> string" where
  "instruction env shot s =
     (if truthy (fixing_prompt s)
      then build_variation_prompt env (sh_id shot) @ newline @ newline
             @ dict_get (fixing_prompt s) []
      else build_variation_prompt env (sh_id shot))"

definition attempted :: "attempt \<Rightarrow> loop_state \<Rightarrow> loop_state" where
  "attempted a s = s\<lparr>attempts := attempts s + 1, trace := trace s @ [a]\<rparr>"

definition retain :: "bytes \<Rightarrow> verification \<Rightarrow> loop_state \<Rightarrow> loop_state" where
  "retain img v s =
     (if score_of v > best_score s
      then s\<lparr>best_score := score_of v, best_image_data := Some img,
             best_breakdown := Some (dict_get (breakdown v) [])\<rparr>
      else s)"

text \<open>The judge events of a log that concern a shot, and the documents written.\<close>

fun judged_as :: "event \<Rightarrow> (profile \<times> string) option" where
  "judged_as (Verify prof sid v) = Some (prof, sid)"
| "judged_as (Generate p r d) = None"
| "judged_as (StatusWrite d) = None"

fun progress_written :: "event \<Rightarrow> jval option option" where
  "progress_written (StatusWrite d) = Some (dict_lookup d ''progress'')"
| "progress_written (Verify prof sid v) = None"
| "progress_written (Generate p r d) = None"

definition progress_history :: "event list \<Rightarrow> jval option list" where
  "progress_history evs = List.map_filter progress_written evs"

section \<open>Concrete runs\<close>

text \<open>
  An environment with the default configuration (threshold 80, three attempts) whose
  synthesiser and judge answer by the moment of the call, and an empty output directory.
\<close>

definition demo_verification :: "int \<Rightarrow> verification" where
  "demo_verification n =
     \<lparr>total_score = Some n,
      breakdown = Some [(''building_shape'', 12), (''proportions'', 18)],
      issues = Some [''roof differs''],
      suggestions = Some [''match the roof'']\<rparr>"

definition demo_env :: "(nat \<Rightarrow> bytes option) \<Rightarrow> (nat \<Rightarrow> verification) \<Rightarrow> env" where
  "demo_env synth judge =
     \<lparr>VERIFICATION_THRESHOLD = 80, MAX_REGEN_ATTEMPTS = 3,
      now_isoformat = (\<lambda>n. ''2026-01-01T00:00:00''),
      now_strftime = (\<lambda>n. ''20260101_000000''),
      image_model = (\<lambda>t p r a. synth t),
      vision_model = (\<lambda>t prof h g sid. judge t),
      parse_user_prompt = (\<lambda>p. \<lparr>p_project_type = None, p_num_units = None\<rparr>),
      build_variation_prompt = (\<lambda>sid. ''shot '' @ sid),
      build_hero_generation_prompt = (\<lambda>p. ''hero '' @ p)\<rparr>"

definition empty_world :: world where
  "empty_world =
     \<lparr>files = Map.empty, status_json = None, manifest_json = None, clock = 0, log = []\<rparr>"

definition street_shot :: shot where
  "street_shot = mk_shot ''context_street'' ''site_context'' ''Street Scene'' 4"

definition demo_job :: job where
  "demo_job = \<lparr>a_user_prompt = ''two townhouses'', a_output_dir = ''out'', a_job_id = ''j'',
               a_project_type = None, a_from_hero = None\<rparr>"

definition always_image :: "nat \<Rightarrow> bytes option" where
  "always_image t = Some [1]"

definition scores_55_90 :: "nat \<Rightarrow> verification" where
  "scores_55_90 t = demo_verification (if t = 2 then 55 else 90)"

definition scores_60_70_75 :: "nat \<Rightarrow> verification" where
  "scores_60_70_75 t = demo_verification (if t = 2 then 60 else if t = 5 then 70 else 75)"

text \<open>The loop of \<^verbatim>\<open>generate_project.main\<close> for the street shot, and the entry built from it.\<close>

definition demo_run :: "env \<Rightarrow> world \<times> loop_state" where
  "demo_run env =
     regen_loop env GenerateProject ''out'' street_shot ''out/hero.png'' ''16:9''
       empty_world initial_loop_state"

definition demo_entry :: "env \<Rightarrow> image_entry" where
  "demo_entry env =
     shot_entry env demo_job ''20260101_000000'' street_shot ''16:9'' 1 ''2026-01-01T00:00:00''
       (snd (demo_run env))"

definition image_after_first :: "nat \<Rightarrow> bytes option" where
  "image_after_first t = (if t = 0 then None else Some [1])"

definition scores_60_70 :: "nat \<Rightarrow> verification" where
  "scores_60_70 t = demo_verification (if t = 3 then 60 else 70)"

section \<open>Loop invariants\<close>

text \<open>
  The loop counts every attempt, keeps the largest judged score seen so far (starting
  from 0), and holds an image exactly when that score is positive.
\<close>

definition scores_inv :: "env \<Rightarrow> loop_state \<Rightarrow> bool" where
  "scores_inv env s =
     (attempts s = int (length (trace s))
      \<and> best_score s = foldl max 0 (judged_scores (trace s))
      \<and> (truthy (best_image_data s) = (0 < best_score s)))"

text \<open>What holds while the loop goes on, and what holds when it has ended.\<close>

definition going :: "env \<Rightarrow> loop_state \<Rightarrow> bool" where
  "going env s =
     (scores_inv env s
      \<and> (\<forall>a\<in>set (trace s). \<not> passes (VERIFICATION_THRESHOLD env) a)
      \<and> (trace s = [] \<or> attempts s \<le> MAX_REGEN_ATTEMPTS env))"

definition ended :: "env \<Rightarrow> loop_state \<Rightarrow> bool" where
  "ended env s =
     (scores_inv env s
      \<and> (trace s = [] \<or> attempts s \<le> MAX_REGEN_ATTEMPTS env)
      \<and> ((\<forall>a\<in>set (trace s). \<not> passes (VERIFICATION_THRESHOLD env) a)
            \<and> \<not> attempts s < MAX_REGEN_ATTEMPTS env
          \<or> (\<exists>tr a. trace s = tr @ [a] \<and> passes (VERIFICATION_THRESHOLD env) a
                \<and> (\<forall>b\<in>set tr. \<not> passes (VERIFICATION_THRESHOLD env) b))))"






text \<open>The events a step added to the log.\<close>

definition events_since :: "world \<Rightarrow> world \<Rightarrow> event list" where
  "events_since w w' = drop (length (log w)) (log w')"

text \<open>
  An event respects a shot's profile when, if it is a judgement, it judges that shot with
  the interior judge for an interior shot id and with the exterior judge otherwise.
\<close>

definition judged_by_profile :: "shot \<Rightarrow> event \<Rightarrow> bool" where
  "judged_by_profile shot e =
     (case judged_as e of
        None \<Rightarrow> True
      | Some (prof, sid) \<Rightarrow>
          sid = sh_id shot
          \<and> prof = (if sh_id shot \<in> set INTERIOR_SHOT_IDS then Interior else Exterior))"

text \<open>What the loop may do to the world: leave the manifest alone and add such events.\<close>

definition extends :: "shot \<Rightarrow> world \<Rightarrow> world \<Rightarrow> bool" where
  "extends shot w w' =
     (manifest_json w' = manifest_json w
      \<and> (\<exists>evs. log w' = log w @ evs \<and> (\<forall>e\<in>set evs. judged_by_profile shot e)))"



definition always_90 :: "nat \<Rightarrow> verification" where
  "always_90 t = demo_verification 90"

text \<open>
  A finished job to regenerate in: the hero file, and a manifest with the given entries.
  The street entry is a low-confidence result of the first run.
\<close>

definition hero_image_entry :: image_entry where
  "hero_image_entry =
     hero_entry demo_job ''hero_facade_20260101_000000.png'' ''16:9'' ''2026-01-01T00:00:00''"

definition street_image_entry :: image_entry where
  "street_image_entry =
     shot_entry (demo_env always_image always_90) demo_job ''20260101_000000'' street_shot
       ''16:9'' 1 ''2026-01-01T00:00:00''
       \<lparr>attempts = 3, best_score = 75, best_image_data = Some [1],
        best_breakdown = Some [(''building_shape'', 12), (''proportions'', 18)],
        fixing_prompt = None, trace = []\<rparr>"

definition regen_world :: "image_entry list \<Rightarrow> world" where
  "regen_world imgs =
     \<lparr>files = [''out/hero_facade_20260101_000000.png'' \<mapsto> [1]],
      status_json = None,
      manifest_json = Some \<lparr>m_job_id = ''j'', m_created_at = ''2026-01-01T00:00:00'',
                            m_images = Some imgs, m_updated_at = None\<rparr>,
      clock = 0, log = []\<rparr>"

text \<open>Regenerating the street shot there, with a judge that passes; and the loop of that run.\<close>

definition regen_run :: "image_entry list \<Rightarrow> py_error + world" where
  "regen_run imgs =
     regenerate_single_main (demo_env always_image always_90) ''j'' ''context_street'' ''out''
       (regen_world imgs)"

definition regen_loop_run :: "image_entry list \<Rightarrow> world \<times> loop_state" where
  "regen_loop_run imgs =
     regen_loop (demo_env always_image always_90) RegenerateSingle ''out'' street_shot
       (path_join ''out'' (filename hero_image_entry)) (get_aspect_ratio_for_shot ''context_street'')
       (regen_world imgs) initial_loop_state"

section \<open>Runs of the project driver\<close>

text \<open>
  The manifest file exists and its image list is \<open>imgs\<close>.
\<close>

definition has_images :: "world \<Rightarrow> image_entry list \<Rightarrow> bool" where
  "has_images w imgs = (\<exists>m. manifest_json w = Some m \<and> m_images m = Some imgs)"

text \<open>
  An event that is not a judgement of the hero shot.
\<close>

definition spares_hero :: "event \<Rightarrow> bool" where
  "spares_hero e = (case judged_as e of None \<Rightarrow> True | Some (prof, sid) \<Rightarrow> sid \<noteq> ''hero_facade'')"

text \<open>
  The dictionary \<^verbatim>\<open>update_status\<close> writes: the stored one updated with \<open>status_data\<close>, then
  \<^verbatim>\<open>updated_at\<close>.
\<close>

definition merged :: "env \<Rightarrow> status_doc \<Rightarrow> world \<Rightarrow> status_doc" where
  "merged env status_data w =
     dict_set ''updated_at'' (JStr (now_isoformat env (clock w)))
       (dict_update (case status_json w of None \<Rightarrow> [] | Some d \<Rightarrow> d) status_data)"

text \<open>
  The status dictionaries that \<^verbatim>\<open>main\<close> of \<^verbatim>\<open>generate_project.py\<close> passes to
  \<^verbatim>\<open>update_status\<close>: at the start of a shot, at the start of the run, after parsing, at the
  end, and in the two branches of the hero stage.
\<close>

definition shot_status :: "int \<Rightarrow> int \<Rightarrow> shot \<Rightarrow> status_doc" where
  "shot_status completed total_shots shot =
     [(''status'', JStr ''generating''),
      (''progress'', JInt (shot_progress completed total_shots)),
      (''currentImage'', JInt (completed + 1)),
      (''totalImages'', JInt total_shots),
      (''currentVariation'', JStr (sh_id shot)),
      (''message'', JStr (''Generating '' @ sh_name shot @ ''...''))]"

definition parsing_status :: "job \<Rightarrow> status_doc" where
  "parsing_status job =
     [(''status'', JStr ''parsing''),
      (''progress'', JInt 2),
      (''currentImage'', JInt 0),
      (''totalImages'', JInt 18),
      (''message'', JStr ''Analyzing project description...''),
      (''prompt'', JStr (a_user_prompt job)),
      (''model'', JStr IMAGE_MODEL)]"

text \<open>
  \<^verbatim>\<open>shots_list\<close> of \<^verbatim>\<open>main\<close>, from the parsed prompt and the \<^verbatim>\<open>--project-type\<close> argument.
\<close>

definition shots_of :: "env \<Rightarrow> job \<Rightarrow> shot list" where
  "shots_of env job =
     (let parsed = parse_user_prompt env (a_user_prompt job);
          parsed = (if truthy (a_project_type job)
                    then parsed\<lparr>p_project_type := a_project_type job\<rparr> else parsed);
          project_type_final = dict_get (p_project_type parsed) ''dual_occupancy'';
          num_units = (let n = dict_get (p_num_units parsed) 2 in if n = 0 then 2 else n)
      in get_shots_for_project_type project_type_final num_units)"

definition parsed_status :: "env \<Rightarrow> job \<Rightarrow> status_doc" where
  "parsed_status env job =
     [(''totalImages'', JInt (int (length (shots_of env job)))),
      (''message'', JStr ''Project parsed, starting generation...'')]"

text \<open>
  The world when \<^verbatim>\<open>main\<close> reaches the hero stage: two status updates, the fresh
  manifest and the timestamp have been made.
\<close>

definition prepared :: "env \<Rightarrow> job \<Rightarrow> world \<Rightarrow> world" where
  "prepared env job w =
     (update_status env (parsed_status env job) (update_status env (parsing_status job) w))
       \<lparr>manifest_json :=
          Some \<lparr>m_job_id = a_job_id job, m_created_at = now_isoformat env (clock w + 2),
                m_images = Some [], m_updated_at = None\<rparr>,
        clock := clock w + 4\<rparr>"

definition complete_status :: "int \<Rightarrow> int \<Rightarrow> status_doc" where
  "complete_status total_shots completed =
     [(''status'', JStr ''complete''),
      (''progress'', JInt 100),
      (''currentImage'', JInt total_shots),
      (''totalImages'', JInt total_shots),
      (''message'', JStr (''Generated '' @ str_int completed @ '' images''))]"

definition approved_status :: "int \<Rightarrow> status_doc" where
  "approved_status total_shots =
     [(''status'', JStr ''generating''),
      (''progress'', JInt 10),
      (''currentImage'', JInt 1),
      (''totalImages'', JInt total_shots),
      (''currentVariation'', JStr ''hero_facade''),
      (''message'', JStr ''Using approved hero image...'')]"

definition generating_hero_status :: status_doc where
  "generating_hero_status =
     [(''status'', JStr ''generating_hero''),
      (''progress'', JInt 5),
      (''currentImage'', JInt 1),
      (''totalImages'', JInt 18),
      (''currentVariation'', JStr ''hero_facade''),
      (''message'', JStr ''Generating primary facade (hero image)...'')]"

definition error_status :: status_doc where
  "error_status =
     [(''status'', JStr ''error''),
      (''message'', JStr ''Failed to generate hero image'')]"

text \<open>
  The test \<^verbatim>\<open>from_hero and os.path.exists(from_hero)\<close>.
\<close>

definition from_hero_applies :: "job \<Rightarrow> world \<Rightarrow> bool" where
  "from_hero_applies job w =
     (truthy (a_from_hero job) \<and> files w (dict_get (a_from_hero job) []) \<noteq> None)"

text \<open>
  A synthesiser that never returns an image; a job started with \<^verbatim>\<open>--from-hero\<close> on an
  existing file; and the dictionary the judge functions return when the call raises, with a
  judge that always answers it.
\<close>

definition never_image :: "nat \<Rightarrow> bytes option" where
  "never_image t = None"

definition approved_job :: job where
  "approved_job = demo_job\<lparr>a_from_hero := Some ''approved/hero.png''\<rparr>"

definition approved_world :: world where
  "approved_world = empty_world\<lparr>files := [''approved/hero.png'' \<mapsto> [7]]\<rparr>"

definition judge_error :: verification where
  "judge_error =
     \<lparr>total_score = Some 0, breakdown = Some [], issues = Some [''quota exceeded''],
      suggestions = Some []\<rparr>"

definition always_error :: "nat \<Rightarrow> verification" where
  "always_error t = judge_error"

text \<open>
  A manifest of an apartments job: \<^verbatim>\<open>get_shots_for_project_type\<close> adds the two shots of
  \<^verbatim>\<open>MULTI_UNIT_EXTRA_SHOTS\<close> to the plan, and \<^verbatim>\<open>generate_project.main\<close> stores an entry for
  each. The first of them, and its entry when the eighteen images before it were stored.
\<close>

definition variety_shot :: shot where
  "variety_shot = mk_shot ''multi_unit_variety'' ''architectural_features'' ''Unit Variety'' 19"

definition variety_image_entry :: image_entry where
  "variety_image_entry =
     shot_entry (demo_env always_image always_90) demo_job ''20260101_000000'' variety_shot
       ''16:9'' 18 ''2026-01-01T00:00:00''
       \<lparr>attempts = 3, best_score = 75, best_image_data = Some [1],
        best_breakdown = Some [(''building_shape'', 12), (''proportions'', 18)],
        fixing_prompt = None, trace = []\<rparr>"

section \<open>The loop, one attempt at a time\<close>

lemma dict_get_simps [simp]: "dict_get (Some x) d = x" "dict_get None d = d"
  by (simp_all add: dict_get_def)

lemma attempt_body_cases:
  assumes "attempt_body env script out shot hero_path aspect_ratio w s = (c, w', s')"
  obtains
    (void) "c = Continue" "s' = attempted (Void (instruction env shot s)) s"
  | (pass) img v where "img \<noteq> []" "VERIFICATION_THRESHOLD env < score_of v" "c = Break"
      "s' = retain img v (attempted (Judged (instruction env shot s) img v) s)"
  | (fail) img v where "img \<noteq> []" "score_of v \<le> VERIFICATION_THRESHOLD env" "c = Continue"
      "s' = (retain img v (attempted (Judged (instruction env shot s) img v) s))
              \<lparr>fixing_prompt := Some (build_fixing_prompt v)\<rparr>"
proof -
  let ?p = "instruction env shot s"
  obtain image_data w1 where g: "generate_image env ?p (Some hero_path) aspect_ratio w = (image_data, w1)"
    by (cases "generate_image env ?p (Some hero_path) aspect_ratio w") auto
  show thesis
  proof (cases "truthy image_data")
    case False
    with g have "attempt_body env script out shot hero_path aspect_ratio w s =
                   (Continue, w1, attempted (Void ?p) s)"
      by (cases "truthy (fixing_prompt s)";
          simp add: attempt_body_def Let_def instruction_def attempted_def)
    with assms have "c = Continue" "s' = attempted (Void ?p) s" by simp_all
    then show thesis by (rule void)
  next
    case True
    then obtain img where img: "image_data = Some img" "img \<noteq> []"
      by (auto simp: truthy_def split: option.splits)
    let ?tp = "path_join out (temp_name script (sh_id shot))"
    let ?w2 = "w1\<lparr>files := (files w1)(?tp \<mapsto> img)\<rparr>"
    let ?w3 = "case script of GenerateProject \<Rightarrow> update_status env
                          [(''status'', JStr ''verifying''),
                           (''message'', JStr (''Verifying '' @ sh_name shot @ ''...''))] ?w2
                    | RegenerateSingle \<Rightarrow> ?w2"
    obtain v w4 where v: "(if is_interior_shot (sh_id shot)
                  then verify_interior_image env hero_path ?tp (sh_id shot) ?w3
                  else verify_image env hero_path ?tp (sh_id shot) ?w3) = (v, w4)"
      by (cases "(if is_interior_shot (sh_id shot)
                  then verify_interior_image env hero_path ?tp (sh_id shot) ?w3
                  else verify_image env hero_path ?tp (sh_id shot) ?w3)") auto
    let ?w5 = "w4\<lparr>files := (files w4)(?tp := None)\<rparr>"
    let ?s2 = "retain img v (attempted (Judged ?p img v) s)"
    show thesis
    proof (cases "VERIFICATION_THRESHOLD env < score_of v")
      case T: True
      from g img v True T
      have "attempt_body env script out shot hero_path aspect_ratio w s = (Break, ?w5, ?s2)"
        by (cases "truthy (fixing_prompt s)"; cases "best_score s < dict_get (total_score v) 0";
            simp add: attempt_body_def Let_def instruction_def attempted_def retain_def
              score_of_def)
      with assms have "c = Break" "s' = ?s2" by simp_all
      then show thesis by (rule pass [OF img(2) T])
    next
      case F: False
      from g img v True F
      have "attempt_body env script out shot hero_path aspect_ratio w s =
              (Continue, ?w5, ?s2\<lparr>fixing_prompt := Some (build_fixing_prompt v)\<rparr>)"
        by (cases "truthy (fixing_prompt s)"; cases "best_score s < dict_get (total_score v) 0";
            simp add: attempt_body_def Let_def instruction_def attempted_def retain_def
              score_of_def)
      with assms have "c = Continue" "s' = ?s2\<lparr>fixing_prompt := Some (build_fixing_prompt v)\<rparr>"
        by simp_all
      moreover from F have "score_of v \<le> VERIFICATION_THRESHOLD env" by simp
      ultimately show thesis using fail [OF img(2)] by blast
    qed
  qed
qed

lemma regen_loop_rule:
  assumes run: "regen_loop env script out shot hero_path aspect_ratio w s = (w', s')"
    and inv: "I w s"
    and step: "\<And>w s c w1 s1. I w s \<Longrightarrow> attempts s < MAX_REGEN_ATTEMPTS env \<Longrightarrow>
                 attempt_body env script out shot hero_path aspect_ratio w s = (c, w1, s1) \<Longrightarrow>
                 (c = Continue \<longrightarrow> I w1 s1) \<and> (c = Break \<longrightarrow> Q w1 s1)"
    and exit: "\<And>w s. I w s \<Longrightarrow> \<not> attempts s < MAX_REGEN_ATTEMPTS env \<Longrightarrow> Q w s"
  shows "Q w' s'"
  using run inv step exit
proof (induction env script out shot hero_path aspect_ratio w s rule: regen_loop.induct)
  case (1 env script out shot hero_path aspect_ratio w s)
  note run = "1.prems"(1) and inv = "1.prems"(2) and step = "1.prems"(3) and exit = "1.prems"(4)
  show ?case
  proof (cases "attempts s < MAX_REGEN_ATTEMPTS env")
    case False
    from run False have "w' = w" "s' = s" by (simp_all add: regen_loop.simps)
    with exit [OF inv False] show ?thesis by simp
  next
    case True
    obtain c w1 s1 where b: "attempt_body env script out shot hero_path aspect_ratio w s = (c, w1, s1)"
      by (cases "attempt_body env script out shot hero_path aspect_ratio w s") auto
    from step [OF inv True b]
    have st: "c = Continue \<longrightarrow> I w1 s1" "c = Break \<longrightarrow> Q w1 s1" by auto
    show ?thesis
    proof (cases c)
      case Break
      with run True b have "(w', s') = (w1, s1)" by (simp add: regen_loop.simps)
      with st Break show ?thesis by simp
    next
      case Continue
      with run True b
      have r: "regen_loop env script out shot hero_path aspect_ratio w1 s1 = (w', s')"
        by (simp add: regen_loop.simps)
      from st Continue have "I w1 s1" by simp
      from "1.IH" [OF True b [symmetric] Continue refl r this step exit]
      show ?thesis by simp
    qed
  qed
qed

lemma judged_scores_snoc [simp]:
  "judged_scores (tr @ [Void p]) = judged_scores tr"
  "judged_scores (tr @ [Judged p img v]) = judged_scores tr @ [score_of v]"
  "judged_scores [] = []"
  by (simp_all add: judged_scores_def map_filter_def)

lemma passes_iff_score:
  "(\<exists>a\<in>set tr. passes t a) = (\<exists>x\<in>set (judged_scores tr). t < x)"
proof (induction tr)
  case Nil
  show ?case by simp
next
  case (Cons a tr)
  then show ?case by (cases a) (auto simp: judged_scores_def map_filter_def)
qed

lemma foldl_max_ge: "(a::int) \<le> foldl max a xs"
  by (induction xs rule: rev_induct) auto

lemma foldl_max_Max: "foldl max (a::int) xs = Max (insert a (set xs))"
proof (induction xs rule: rev_induct)
  case Nil
  show ?case by simp
next
  case (snoc x xs)
  have "Max (insert x (insert a (set xs))) = max x (Max (insert a (set xs)))"
    by (rule Max_insert) simp_all
  moreover have "insert a (set (xs @ [x])) = insert x (insert a (set xs))" by auto
  ultimately show ?case using snoc by (simp add: max.commute)
qed

lemma scores_inv_initial: "scores_inv env initial_loop_state"
  by (simp add: scores_inv_def initial_loop_state_def truthy_def)

lemma scores_inv_void: "scores_inv env s \<Longrightarrow> scores_inv env (attempted (Void p) s)"
  by (simp add: scores_inv_def attempted_def)

lemma scores_inv_judged:
  assumes "scores_inv env s" and "img \<noteq> []"
  shows "scores_inv env (retain img v (attempted (Judged p img v) s))"
proof -
  have "0 \<le> foldl max 0 (judged_scores (trace s))" by (rule foldl_max_ge)
  with assms show ?thesis
    by (auto simp: scores_inv_def retain_def attempted_def truthy_def max_def)
qed

lemma scores_inv_fixing [simp]:
  "scores_inv env (s\<lparr>fixing_prompt := f\<rparr>) = scores_inv env s"
  by (simp add: scores_inv_def)

lemma trace_retain [simp]: "trace (retain img v s) = trace s"
  and attempts_retain [simp]: "attempts (retain img v s) = attempts s"
  and fixing_retain [simp]: "fixing_prompt (retain img v s) = fixing_prompt s"
  by (simp_all add: retain_def)

lemma trace_attempted [simp]: "trace (attempted a s) = trace s @ [a]"
  and attempts_attempted [simp]: "attempts (attempted a s) = attempts s + 1"
  and fixing_attempted [simp]: "fixing_prompt (attempted a s) = fixing_prompt s"
  by (simp_all add: attempted_def)

lemma regen_loop_ended:
  assumes "regen_loop env script out shot hero_path aspect_ratio w s = (w', s')"
    and "going env s"
  shows "ended env s'"
proof (rule regen_loop_rule [where I = "\<lambda>w s. going env s" and Q = "\<lambda>w s. ended env s", OF assms])
  fix w s c w1 s1
  assume g: "going env s" and lt: "attempts s < MAX_REGEN_ATTEMPTS env"
    and b: "attempt_body env script out shot hero_path aspect_ratio w s = (c, w1, s1)"
  from b show "(c = Continue \<longrightarrow> going env s1) \<and> (c = Break \<longrightarrow> ended env s1)"
  proof (cases rule: attempt_body_cases)
    case void
    with g lt show ?thesis by (auto simp: going_def scores_inv_void)
  next
    case (pass img v)
    with g lt show ?thesis
      by (auto simp: going_def ended_def scores_inv_judged)
  next
    case (fail img v)
    with g lt show ?thesis
      by (auto simp: going_def scores_inv_judged)
  qed
next
  fix w s
  assume "going env s" and "\<not> attempts s < MAX_REGEN_ATTEMPTS env"
  then show "ended env s" by (auto simp: going_def ended_def)
qed

lemma going_initial: "going env initial_loop_state"
  by (simp add: going_def scores_inv_initial) (simp add: initial_loop_state_def)

lemma stored_best_is_max:
  assumes "scores_inv env s" and "truthy (best_image_data s)"
  shows "judged_scores (trace s) \<noteq> [] \<and> best_score s = Max (set (judged_scores (trace s)))"
proof -
  let ?xs = "judged_scores (trace s)"
  from assms have pos: "0 < Max (insert 0 (set ?xs))" and
    eq: "best_score s = Max (insert 0 (set ?xs))" by (simp_all add: scores_inv_def foldl_max_Max)
  from pos have ne: "?xs \<noteq> []" by auto
  then have "Max (insert 0 (set ?xs)) = max 0 (Max (set ?xs))"
    by (simp add: Max_insert)
  with pos eq ne show ?thesis by (simp add: max_def split: if_splits)
qed


lemma ended_cases:
  assumes "ended env s" and "trace s \<noteq> []"
  obtains (exhausted) "attempts s = MAX_REGEN_ATTEMPTS env"
      "\<forall>a\<in>set (trace s). \<not> passes (VERIFICATION_THRESHOLD env) a"
  | (passed) tr a where "trace s = tr @ [a]" "passes (VERIFICATION_THRESHOLD env) a"
      "\<forall>b\<in>set tr. \<not> passes (VERIFICATION_THRESHOLD env) b"
  using assms by (auto simp: ended_def)

text \<open>
  C3. For every stored result, in either script, \<^verbatim>\<open>lowConfidence\<close> is true exactly when
  the stored score does not exceed the threshold, and exactly when the loop used all
  \<^verbatim>\<open>MAX_REGEN_ATTEMPTS\<close> attempts and no judged score exceeded the threshold.
\<close>

theorem low_confidence_iff:
  assumes "regen_loop env script out shot hero_path aspect_ratio w initial_loop_state = (w', s)"
    and "truthy (best_image_data s)"
    and "e = shot_entry env job timestamp shot aspect_ratio completed now s
         \<or> e = regenerated_entry env jid vt shot aspect_ratio timestamp now s"
  shows "(lowConfidence e \<longleftrightarrow> consistencyScore e \<le> VERIFICATION_THRESHOLD env)
       \<and> (lowConfidence e \<longleftrightarrow>
            attempts s = MAX_REGEN_ATTEMPTS env
            \<and> (\<forall>x\<in>set (judged_scores (trace s)). \<not> VERIFICATION_THRESHOLD env < x))"
proof -
  let ?T = "VERIFICATION_THRESHOLD env"
  let ?xs = "judged_scores (trace s)"
  from assms(3) have lc: "lowConfidence e \<longleftrightarrow> best_score s \<le> ?T"
    and cs: "consistencyScore e = best_score s"
    by (auto simp: shot_entry_def regenerated_entry_def Let_def split: if_splits)
  from regen_loop_ended [OF assms(1) going_initial] have e: "ended env s" .
  then have inv: "scores_inv env s" by (simp add: ended_def)
  from stored_best_is_max [OF inv assms(2)]
  have ne: "?xs \<noteq> []" and best: "best_score s = Max (set ?xs)" by simp_all
  from ne have tne: "trace s \<noteq> []" by auto
  from e tne
  have "best_score s \<le> ?T \<longleftrightarrow> attempts s = MAX_REGEN_ATTEMPTS env \<and> (\<forall>x\<in>set ?xs. \<not> ?T < x)"
  proof (cases rule: ended_cases)
    case exhausted
    then have "\<forall>x\<in>set ?xs. \<not> ?T < x" using passes_iff_score [of "trace s" ?T] by blast
    with exhausted best ne show ?thesis by (auto simp: Max_le_iff)
  next
    case (passed tr a)
    then have "\<exists>x\<in>set ?xs. ?T < x" using passes_iff_score [of "trace s" ?T] by auto
    then obtain x where x: "x \<in> set ?xs" "?T < x" by blast
    from x(1) have "x \<le> Max (set ?xs)" by simp
    with x(2) best have "\<not> best_score s \<le> ?T" by linarith
    with x show ?thesis by blast
  qed
  with lc cs show ?thesis by simp
qed

text \<open>Evaluating the loop on a concrete run: the arguments first, then the body.\<close>

lemmas demo_simps =
  demo_run_def demo_env_def always_image_def scores_60_70_75_def scores_55_90_def
  image_after_first_def scores_60_70_def
  empty_world_def street_shot_def mk_shot_def
  initial_loop_state_def regen_loop.simps attempt_body_def Let_def truthy_def
  generate_image_def update_status_def verify_image_def verify_interior_image_def
  is_interior_shot_def INTERIOR_SHOT_IDS_def path_join_def temp_name_def
  dict_update_def dict_set_def

lemma join_snoc_nonempty: "x \<noteq> [] \<Longrightarrow> join sep (xs @ [x]) \<noteq> []"
  by (induction sep xs rule: join.induct) auto

lemma build_fixing_prompt_nonempty [simp]: "build_fixing_prompt v \<noteq> []"
  by (simp add: build_fixing_prompt_def fixing_lines_def Let_def join_snoc_nonempty)

lemma demo_run_60_70_75:
  "snd (demo_run (demo_env always_image scores_60_70_75)) =
     \<lparr>attempts = 3, best_score = 75, best_image_data = Some [1],
      best_breakdown = Some [(''building_shape'', 12), (''proportions'', 18)],
      fixing_prompt = Some (build_fixing_prompt (demo_verification 75)),
      trace =
        [Judged ''shot context_street'' [1] (demo_verification 60),
         Judged (''shot context_street'' @ newline @ newline
                   @ build_fixing_prompt (demo_verification 60)) [1] (demo_verification 70),
         Judged (''shot context_street'' @ newline @ newline
                   @ build_fixing_prompt (demo_verification 70)) [1] (demo_verification 75)]\<rparr>"
  by (simp add: demo_simps demo_verification_def cong: let_weak_cong old.prod.case_cong_weak)

lemma demo_run_55_90:
  "snd (demo_run (demo_env always_image scores_55_90)) =
     \<lparr>attempts = 2, best_score = 90, best_image_data = Some [1],
      best_breakdown = Some [(''building_shape'', 12), (''proportions'', 18)],
      fixing_prompt = Some (build_fixing_prompt (demo_verification 55)),
      trace =
        [Judged ''shot context_street'' [1] (demo_verification 55),
         Judged (''shot context_street'' @ newline @ newline
                   @ build_fixing_prompt (demo_verification 55)) [1] (demo_verification 90)]\<rparr>"
  by (simp add: demo_simps demo_verification_def cong: let_weak_cong old.prod.case_cong_weak)


lemma demo_run_collapse:
  "regen_loop env GenerateProject ''out'' street_shot ''out/hero.png'' ''16:9''
     empty_world initial_loop_state = (fst (demo_run env), snd (demo_run env))"
  by (simp add: demo_run_def)

lemma score_demo [simp]: "score_of (demo_verification n) = n"
  by (simp add: score_of_def demo_verification_def)


text \<open>
  Witness for C3: scores 60, 70, 75 under threshold 80 use all three attempts; the entry
  stores 75 and is flagged.
\<close>

theorem low_confidence_iff_witness:
  "truthy (best_image_data (snd (demo_run (demo_env always_image scores_60_70_75))))
   \<and> judged_scores (trace (snd (demo_run (demo_env always_image scores_60_70_75)))) = [60, 70, 75]
   \<and> attempts (snd (demo_run (demo_env always_image scores_60_70_75))) = 3
   \<and> consistencyScore (demo_entry (demo_env always_image scores_60_70_75)) = 75
   \<and> lowConfidence (demo_entry (demo_env always_image scores_60_70_75))"
proof -
  let ?env = "demo_env always_image scores_60_70_75"
  have stored: "truthy (best_image_data (snd (demo_run ?env)))"
    by (simp add: demo_run_60_70_75 truthy_def)
  have scores: "judged_scores (trace (snd (demo_run ?env))) = [60, 70, 75]"
    by (simp add: demo_run_60_70_75 judged_scores_def map_filter_def)
  have T: "VERIFICATION_THRESHOLD ?env = 80" "MAX_REGEN_ATTEMPTS ?env = 3"
    by (simp_all add: demo_env_def)
  have a: "attempts (snd (demo_run ?env)) = 3" by (simp add: demo_run_60_70_75)
  have e: "demo_entry ?env =
             shot_entry ?env demo_job ''20260101_000000'' street_shot ''16:9'' 1
               ''2026-01-01T00:00:00'' (snd (demo_run ?env))
           \<or> demo_entry ?env =
             regenerated_entry ?env ''j'' ''context_street'' street_shot ''16:9''
               ''20260101_000000'' ''2026-01-01T00:00:00'' (snd (demo_run ?env))"
    by (simp add: demo_entry_def)
  from low_confidence_iff [OF demo_run_collapse stored e, THEN conjunct2]
  have "lowConfidence (demo_entry ?env)"
    by (simp add: T a scores)
  moreover have "consistencyScore (demo_entry ?env) = 75"
    by (simp add: demo_entry_def shot_entry_def demo_run_60_70_75 Let_def)
  ultimately show ?thesis using stored scores a by simp
qed


lemma ended_pass_is_last:
  assumes "ended env s" and "i < length (trace s)"
    and "passes (VERIFICATION_THRESHOLD env) (trace s ! i)"
  shows "length (trace s) = i + 1"
proof -
  from assms(2) have ne: "trace s \<noteq> []" by auto
  from assms(1) ne show ?thesis
  proof (cases rule: ended_cases)
    case exhausted
    with assms(2,3) show ?thesis by (auto simp: all_set_conv_all_nth)
  next
    case (passed tr a)
    show ?thesis
    proof (cases "i < length tr")
      case True
      with passed(1) have "trace s ! i = tr ! i" by (simp add: nth_append)
      with passed(3) True assms(3) show ?thesis by (auto simp: all_set_conv_all_nth)
    next
      case False
      with assms(2) passed(1) show ?thesis by simp
    qed
  qed
qed

text \<open>
  C5. As soon as an attempt is judged above the threshold the loop ends: that attempt is
  the last of the trace and the attempts count stops there. With three attempts allowed
  and threshold 80, scores 55 then 90 end the loop after attempt 2, with stored score 90
  and no low-confidence flag.
\<close>

theorem early_exit_on_pass:
  "(\<forall>w' s i. regen_loop env script out shot hero_path aspect_ratio w initial_loop_state = (w', s)
       \<longrightarrow> i < length (trace s)
       \<longrightarrow> passes (VERIFICATION_THRESHOLD env) (trace s ! i)
       \<longrightarrow> length (trace s) = i + 1 \<and> attempts s = int i + 1)
   \<and> judged_scores (trace (snd (demo_run (demo_env always_image scores_55_90)))) = [55, 90]
   \<and> attempts (snd (demo_run (demo_env always_image scores_55_90))) = 2
   \<and> entry_attempts (demo_entry (demo_env always_image scores_55_90)) = 2
   \<and> consistencyScore (demo_entry (demo_env always_image scores_55_90)) = 90
   \<and> \<not> lowConfidence (demo_entry (demo_env always_image scores_55_90))"
proof -
  have general: "length (trace s) = i + 1 \<and> attempts s = int i + 1"
    if "regen_loop env script out shot hero_path aspect_ratio w initial_loop_state = (w', s)"
      and "i < length (trace s)" and "passes (VERIFICATION_THRESHOLD env) (trace s ! i)"
    for w' s i
  proof -
    from regen_loop_ended [OF that(1) going_initial] have e: "ended env s" .
    from ended_pass_is_last [OF e that(2,3)] e show ?thesis
      by (simp add: ended_def scores_inv_def)
  qed
  have "VERIFICATION_THRESHOLD (demo_env always_image scores_55_90) = 80"
    by (simp add: demo_env_def)
  then have example:
    "judged_scores (trace (snd (demo_run (demo_env always_image scores_55_90)))) = [55, 90]"
    "attempts (snd (demo_run (demo_env always_image scores_55_90))) = 2"
    "entry_attempts (demo_entry (demo_env always_image scores_55_90)) = 2"
    "consistencyScore (demo_entry (demo_env always_image scores_55_90)) = 90"
    "\<not> lowConfidence (demo_entry (demo_env always_image scores_55_90))"
    by (simp_all add: demo_entry_def shot_entry_def demo_run_55_90 Let_def judged_scores_def
          map_filter_def)
  from general example show ?thesis by blast
qed

text \<open>Witness for C5: the second attempt of that run passes and one attempt is left unspent.\<close>

theorem early_exit_on_pass_witness:
  "passes (VERIFICATION_THRESHOLD (demo_env always_image scores_55_90))
     (trace (snd (demo_run (demo_env always_image scores_55_90))) ! 1)
   \<and> length (trace (snd (demo_run (demo_env always_image scores_55_90)))) = 2
   \<and> attempts (snd (demo_run (demo_env always_image scores_55_90))) = 2
   \<and> MAX_REGEN_ATTEMPTS (demo_env always_image scores_55_90) = 3"
proof -
  let ?env = "demo_env always_image scores_55_90"
  have T: "VERIFICATION_THRESHOLD ?env = 80" "MAX_REGEN_ATTEMPTS ?env = 3"
    by (simp_all add: demo_env_def)
  have p: "passes (VERIFICATION_THRESHOLD ?env) (trace (snd (demo_run ?env)) ! 1)"
    and l: "1 < length (trace (snd (demo_run ?env)))"
    by (simp_all add: T demo_run_55_90)
  from early_exit_on_pass [of ?env GenerateProject "''out''" street_shot "''out/hero.png''" "''16:9''" empty_world]
    demo_run_collapse [of ?env] l p
  have "length (trace (snd (demo_run ?env))) = 1 + 1 \<and> attempts (snd (demo_run ?env)) = int 1 + 1"
    by blast
  with p T show ?thesis by simp
qed











lemma attempt_body_world:
  assumes "attempt_body env script out shot hero_path aspect_ratio w s = (c, w', s')"
  obtains
    (void) image_data where
      "generate_image env (instruction env shot s) (Some hero_path) aspect_ratio w = (image_data, w')"
  | (judged) img w1 w3 v w4 where
      "generate_image env (instruction env shot s) (Some hero_path) aspect_ratio w = (Some img, w1)"
      "w3 = (case script of
               GenerateProject \<Rightarrow>
                 update_status env
                   [(''status'', JStr ''verifying''),
                    (''message'', JStr (''Verifying '' @ sh_name shot @ ''...''))]
                   (w1\<lparr>files := (files w1)(path_join out (temp_name script (sh_id shot)) \<mapsto> img)\<rparr>)
             | RegenerateSingle \<Rightarrow>
                 w1\<lparr>files := (files w1)(path_join out (temp_name script (sh_id shot)) \<mapsto> img)\<rparr>)"
      "(if is_interior_shot (sh_id shot)
        then verify_interior_image env hero_path (path_join out (temp_name script (sh_id shot)))
               (sh_id shot) w3
        else verify_image env hero_path (path_join out (temp_name script (sh_id shot)))
               (sh_id shot) w3) = (v, w4)"
      "w' = w4\<lparr>files := (files w4)(path_join out (temp_name script (sh_id shot)) := None)\<rparr>"
proof -
  let ?p = "instruction env shot s"
  obtain image_data w1 where g: "generate_image env ?p (Some hero_path) aspect_ratio w = (image_data, w1)"
    by (cases "generate_image env ?p (Some hero_path) aspect_ratio w") auto
  show thesis
  proof (cases "truthy image_data")
    case False
    with g have "attempt_body env script out shot hero_path aspect_ratio w s =
                   (Continue, w1, attempted (Void ?p) s)"
      by (cases "truthy (fixing_prompt s)";
          simp add: attempt_body_def Let_def instruction_def attempted_def)
    with assms have "w' = w1" by simp
    with g show thesis by (auto intro: void)
  next
    case True
    then obtain img where img: "image_data = Some img" "img \<noteq> []"
      by (auto simp: truthy_def split: option.splits)
    let ?tp = "path_join out (temp_name script (sh_id shot))"
    let ?w2 = "w1\<lparr>files := (files w1)(?tp \<mapsto> img)\<rparr>"
    let ?w3 = "case script of GenerateProject \<Rightarrow> update_status env
                          [(''status'', JStr ''verifying''),
                           (''message'', JStr (''Verifying '' @ sh_name shot @ ''...''))] ?w2
                    | RegenerateSingle \<Rightarrow> ?w2"
    obtain v w4 where v: "(if is_interior_shot (sh_id shot)
                  then verify_interior_image env hero_path ?tp (sh_id shot) ?w3
                  else verify_image env hero_path ?tp (sh_id shot) ?w3) = (v, w4)"
      by (cases "(if is_interior_shot (sh_id shot)
                  then verify_interior_image env hero_path ?tp (sh_id shot) ?w3
                  else verify_image env hero_path ?tp (sh_id shot) ?w3)") auto
    let ?w5 = "w4\<lparr>files := (files w4)(?tp := None)\<rparr>"
    from g img v True
    have "fst (snd (attempt_body env script out shot hero_path aspect_ratio w s)) = ?w5"
      by (cases "truthy (fixing_prompt s)"; cases "best_score s < dict_get (total_score v) 0";
          cases "VERIFICATION_THRESHOLD env < dict_get (total_score v) 0";
          simp add: attempt_body_def Let_def instruction_def)
    with assms have "w' = ?w5" by simp
    with g img v show thesis using judged [of img w1 ?w3 v w4] by simp
  qed
qed

lemma extends_refl: "extends shot w w"
  by (simp add: extends_def)

lemma extends_trans: "extends shot w w1 \<Longrightarrow> extends shot w1 w2 \<Longrightarrow> extends shot w w2"
  by (auto simp: extends_def)

lemma extends_generate_image:
  "generate_image env p r a w = (d, w') \<Longrightarrow> extends shot w w'"
  by (auto simp: generate_image_def Let_def extends_def judged_by_profile_def)

lemma extends_update_status: "extends shot w (update_status env d w)"
  by (simp add: update_status_def Let_def extends_def judged_by_profile_def)

lemma extends_files: "extends shot w (w\<lparr>files := f\<rparr>)"
  by (simp add: extends_def)

lemma extends_verify:
  "(if is_interior_shot (sh_id shot)
    then verify_interior_image env h t (sh_id shot) w
    else verify_image env h t (sh_id shot) w) = (v, w') \<Longrightarrow> extends shot w w'"
  by (auto simp: verify_image_def verify_interior_image_def Let_def extends_def
        judged_by_profile_def is_interior_shot_def split: if_splits)

lemma attempt_body_extends:
  assumes "attempt_body env script out shot hero_path aspect_ratio w s = (c, w', s')"
  shows "extends shot w w'"
  using assms
proof (cases rule: attempt_body_world)
  case (void image_data)
  then show ?thesis by (rule extends_generate_image)
next
  case (judged img w1 w3 v w4)
  have "extends shot w w1" using judged(1) by (rule extends_generate_image)
  moreover have "extends shot w1 w3"
    unfolding judged(2)
    by (cases script) (auto intro: extends_trans extends_files extends_update_status)
  moreover have "extends shot w3 w4" using judged(3) by (rule extends_verify)
  moreover have "extends shot w4 w'" unfolding judged(4) by (rule extends_files)
  ultimately show ?thesis by (blast intro: extends_trans)
qed

lemma regen_loop_extends:
  assumes "regen_loop env script out shot hero_path aspect_ratio w s = (w', s')"
  shows "extends shot w w'"
proof (rule regen_loop_rule [where I = "\<lambda>w1 s. extends shot w w1"
      and Q = "\<lambda>w1 s. extends shot w w1", OF assms extends_refl])
  fix w1 s c w2 s2
  assume "extends shot w w1"
    and "attempt_body env script out shot hero_path aspect_ratio w1 s = (c, w2, s2)"
  then have "extends shot w w2" by (blast intro: extends_trans attempt_body_extends)
  then show "(c = Continue \<longrightarrow> extends shot w w2) \<and> (c = Break \<longrightarrow> extends shot w w2)" by simp
qed




lemma replace_entry_at:
  assumes "i < length imgs" and "variationType (imgs ! i) = vt"
    and "\<forall>j<i. variationType (imgs ! j) \<noteq> vt" and "entry_id (imgs ! i) = Some x"
  shows "replace_entry vt new imgs = Inr (imgs[i := new\<lparr>entry_id := Some x\<rparr>])"
  using assms
proof (induction imgs arbitrary: i)
  case Nil
  then show ?case by simp
next
  case (Cons img rest)
  show ?case
  proof (cases i)
    case 0
    with Cons.prems show ?thesis by simp
  next
    case (Suc k)
    with Cons.prems have "variationType img \<noteq> vt" by auto
    moreover from Suc Cons.prems
    have "replace_entry vt new rest = Inr (rest[k := new\<lparr>entry_id := Some x\<rparr>])"
      by (intro Cons.IH) auto
    ultimately show ?thesis using Suc by simp
  qed
qed

lemma replace_entry_none:
  "\<forall>img\<in>set imgs. variationType img \<noteq> vt \<Longrightarrow> replace_entry vt new imgs = Inr imgs"
  by (induction imgs) simp_all

lemma update_manifest_images:
  assumes "manifest_json w = Some m" and "m_images m = Some imgs"
    and "replace_entry vt new imgs = Inr imgs'"
  shows "\<exists>w'. update_manifest env vt new w = Inr w'
           \<and> manifest_json w' = Some (m\<lparr>m_images := Some imgs',
                                         m_updated_at := Some (now_isoformat env (clock w))\<rparr>)
           \<and> files w' = files w"
  using assms
  by (cases "status_json w") (simp_all add: update_manifest_def Let_def)

lemma regenerate_single_main_generated:
  assumes "manifest_json w = Some m"
    and "get_shot_by_id vt = Some shot"
    and "find isHero (dict_get (m_images m) []) = Some hero"
    and "files w (path_join out (filename hero)) \<noteq> None"
    and "regen_loop env RegenerateSingle out shot (path_join out (filename hero))
           (get_aspect_ratio_for_shot vt) w initial_loop_state = (w1, s)"
    and "truthy (best_image_data s)"
  shows "regenerate_single_main env jid vt out w =
         update_manifest env vt
           (regenerated_entry env jid vt shot (get_aspect_ratio_for_shot vt)
              (now_strftime env (clock w1)) (now_isoformat env (clock w1 + 1)) s)
           (w1\<lparr>files := (files w1)
                   (path_join out (vt @ ''_'' @ now_strftime env (clock w1) @ ''.png'')
                      \<mapsto> dict_get (best_image_data s) []),
                clock := clock w1 + 2\<rparr>)"
proof -
  have fn: "filename (regenerated_entry env jid vt shot a ts now s)
              = vt @ ''_'' @ ts @ ''.png''" for a ts now
    by (simp add: regenerated_entry_def Let_def)
  from assms(4) obtain y where y: "files w (path_join out (filename hero)) = Some y" by auto
  from assms(1,2,3,5,6) y show ?thesis
    by (simp add: regenerate_single_main_def Let_def fn)
qed

lemma regenerate_single_main_cases:
  assumes "manifest_json w = Some m"
  obtains (exit) "regenerate_single_main env jid vt out w = Inl (SystemExit 1)"
  | (generated) shot hero w1 s where
      "get_shot_by_id vt = Some shot"
      "find isHero (dict_get (m_images m) []) = Some hero"
      "files w (path_join out (filename hero)) \<noteq> None"
      "regen_loop env RegenerateSingle out shot (path_join out (filename hero))
         (get_aspect_ratio_for_shot vt) w initial_loop_state = (w1, s)"
      "truthy (best_image_data s)"
      "regenerate_single_main env jid vt out w =
         update_manifest env vt
           (regenerated_entry env jid vt shot (get_aspect_ratio_for_shot vt)
              (now_strftime env (clock w1)) (now_isoformat env (clock w1 + 1)) s)
           (w1\<lparr>files := (files w1)
                   (path_join out (vt @ ''_'' @ now_strftime env (clock w1) @ ''.png'')
                      \<mapsto> dict_get (best_image_data s) []),
                clock := clock w1 + 2\<rparr>)"
proof (cases "get_shot_by_id vt")
  case None
  with assms show thesis by (intro exit) (simp add: regenerate_single_main_def)
next
  case (Some shot)
  note shot = this
  show thesis
  proof (cases "find isHero (dict_get (m_images m) [])")
    case None
    with assms shot show thesis by (intro exit) (simp add: regenerate_single_main_def)
  next
    case (Some hero)
    note hero = this
    show thesis
    proof (cases "files w (path_join out (filename hero)) = None")
      case True
      with assms shot hero show thesis
        by (intro exit) (simp add: regenerate_single_main_def Let_def)
    next
      case False
      obtain w1 s where run: "regen_loop env RegenerateSingle out shot
          (path_join out (filename hero)) (get_aspect_ratio_for_shot vt) w initial_loop_state
          = (w1, s)"
        by (cases "regen_loop env RegenerateSingle out shot
          (path_join out (filename hero)) (get_aspect_ratio_for_shot vt) w initial_loop_state")
          auto
      show thesis
      proof (cases "truthy (best_image_data s)")
        case f: False
        with assms shot hero False run show thesis
          by (intro exit) (simp add: regenerate_single_main_def Let_def)
      next
        case t: True
        note eq = regenerate_single_main_generated [OF assms shot hero False run t]
        from shot hero False run t eq show thesis by (rule generated)
      qed
    qed
  qed
qed

text \<open>
  Replacement in place, for the runs of \<^verbatim>\<open>regenerate_single.py\<close> that return: these are runs
  for a shot that \<^verbatim>\<open>get_shot_by_id\<close> finds, one of the eighteen of \<^verbatim>\<open>SHOT_TYPES\<close>.
  When regeneration of a shot succeeds and the manifest has an entry for that shot
  (the first one with that \<^verbatim>\<open>variationType\<close>, carrying an id), the new manifest list is the
  old one with that position overwritten: the new entry is the one built from the loop's
  result with the old entry's id put in, the list keeps its length and every other
  position keeps its entry.
\<close>

theorem regeneration_replaces_in_place:
  assumes "manifest_json w = Some m" and "m_images m = Some imgs"
    and "i < length imgs" and "variationType (imgs ! i) = vt"
    and "\<forall>j<i. variationType (imgs ! j) \<noteq> vt"
    and "entry_id (imgs ! i) = Some x"
    and "regenerate_single_main env jid vt out w = Inr w'"
  shows "\<exists>m' e shot hero w1 s.
           manifest_json w' = Some m' \<and> m_images m' = Some (imgs[i := e])
           \<and> get_shot_by_id vt = Some shot \<and> find isHero imgs = Some hero
           \<and> regen_loop env RegenerateSingle out shot (path_join out (filename hero))
                 (get_aspect_ratio_for_shot vt) w initial_loop_state = (w1, s)
           \<and> e = (regenerated_entry env jid vt shot (get_aspect_ratio_for_shot vt)
                     (now_strftime env (clock w1)) (now_isoformat env (clock w1 + 1)) s)
                   \<lparr>entry_id := entry_id (imgs ! i)\<rparr>
           \<and> entry_id e = entry_id (imgs ! i)
           \<and> variationType e = vt
           \<and> length (imgs[i := e]) = length imgs
           \<and> (\<forall>j<length imgs. j \<noteq> i \<longrightarrow> imgs[i := e] ! j = imgs ! j)"
  using assms(1)
proof (cases rule: regenerate_single_main_cases [where env = env and jid = jid and vt = vt and out = out])
  case exit
  with assms(7) show ?thesis by simp
next
  case (generated shot hero w1 s)
  let ?new = "regenerated_entry env jid vt shot (get_aspect_ratio_for_shot vt)
              (now_strftime env (clock w1)) (now_isoformat env (clock w1 + 1)) s"
  let ?w2 = "w1\<lparr>files := (files w1)
                   (path_join out (vt @ ''_'' @ now_strftime env (clock w1) @ ''.png'')
                      \<mapsto> dict_get (best_image_data s) []),
                clock := clock w1 + 2\<rparr>"
  from regen_loop_extends [OF generated(4)] assms(1)
  have m: "manifest_json ?w2 = Some m" by (simp add: extends_def)
  from replace_entry_at [OF assms(3,4,5,6)]
  have r: "replace_entry vt ?new imgs = Inr (imgs[i := ?new\<lparr>entry_id := Some x\<rparr>])" .
  let ?e = "?new\<lparr>entry_id := Some x\<rparr>"
  let ?m' = "m\<lparr>m_images := Some (imgs[i := ?e]),
               m_updated_at := Some (now_isoformat env (clock ?w2))\<rparr>"
  from update_manifest_images [OF m assms(2) r, of env] generated(6) assms(7)
  have "manifest_json w' = Some ?m'" by auto
  moreover have "m_images ?m' = Some (imgs[i := ?e])" by simp
  moreover have "entry_id ?e = entry_id (imgs ! i)" using assms(6) by simp
  moreover have "variationType ?e = vt"
    by (simp add: regenerated_entry_def Let_def)
  moreover have "length (imgs[i := ?e]) = length imgs"
    "\<forall>j<length imgs. j \<noteq> i \<longrightarrow> imgs[i := ?e] ! j = imgs ! j"
    by simp_all
  moreover have "?e = ?new\<lparr>entry_id := entry_id (imgs ! i)\<rparr>" using assms(6) by simp
  moreover from generated(2) assms(2) have "find isHero imgs = Some hero" by simp
  moreover note generated(1,4)
  ultimately show ?thesis
    by (intro exI [of _ ?m'] exI [of _ ?e] exI [of _ shot] exI [of _ hero] exI [of _ w1]
          exI [of _ s] conjI)
qed

text \<open>
  C10. When the manifest has no entry for the shot to regenerate (the shot is a known one,
  the hero entry and file exist, and the loop ends holding an image), regeneration returns
  normally, the manifest is the old one with only \<^verbatim>\<open>updated_at\<close> rewritten, so its image
  list is unchanged, and the new image file is in the output directory.
\<close>

theorem regeneration_without_entry_keeps_images:
  assumes "manifest_json w = Some m" and "m_images m = Some imgs"
    and "\<forall>img\<in>set imgs. variationType img \<noteq> vt"
    and "get_shot_by_id vt = Some shot"
    and "find isHero imgs = Some hero"
    and "files w (path_join out (filename hero)) \<noteq> None"
    and "regen_loop env RegenerateSingle out shot (path_join out (filename hero))
           (get_aspect_ratio_for_shot vt) w initial_loop_state = (w1, s)"
    and "truthy (best_image_data s)"
  shows "\<exists>w'. regenerate_single_main env jid vt out w = Inr w'
           \<and> manifest_json w' = Some (m\<lparr>m_updated_at := Some (now_isoformat env (clock w1 + 2))\<rparr>)
           \<and> m_images (m\<lparr>m_updated_at := Some (now_isoformat env (clock w1 + 2))\<rparr>) = Some imgs
           \<and> files w' (path_join out (vt @ ''_'' @ now_strftime env (clock w1) @ ''.png''))
               = best_image_data s"
proof -
  let ?new = "regenerated_entry env jid vt shot (get_aspect_ratio_for_shot vt)
              (now_strftime env (clock w1)) (now_isoformat env (clock w1 + 1)) s"
  let ?w2 = "w1\<lparr>files := (files w1)
                   (path_join out (vt @ ''_'' @ now_strftime env (clock w1) @ ''.png'')
                      \<mapsto> dict_get (best_image_data s) []),
                clock := clock w1 + 2\<rparr>"
  from assms(2,5) have hero: "find isHero (dict_get (m_images m) []) = Some hero" by simp
  note eq = regenerate_single_main_generated [OF assms(1,4) hero assms(6,7,8), of jid]
  from regen_loop_extends [OF assms(7)] assms(1)
  have m: "manifest_json ?w2 = Some m" by (simp add: extends_def)
  from replace_entry_none [OF assms(3)]
  have r: "replace_entry vt ?new imgs = Inr imgs" .
  from assms(8) have b: "Some (dict_get (best_image_data s) []) = best_image_data s"
    by (cases "best_image_data s") (simp_all add: truthy_def)
  from update_manifest_images [OF m assms(2) r, of env] obtain w'
    where w': "update_manifest env vt ?new ?w2 = Inr w'"
      "manifest_json w' = Some (m\<lparr>m_images := Some imgs,
                                  m_updated_at := Some (now_isoformat env (clock ?w2))\<rparr>)"
      "files w' = files ?w2"
    by blast
  from assms(2) have "m\<lparr>m_images := Some imgs\<rparr> = m" by simp
  with w' eq b assms(2) show ?thesis by simp
qed

lemma regen_loop_run_state:
  "snd (regen_loop_run imgs) =
     \<lparr>attempts = 1, best_score = 90, best_image_data = Some [1],
      best_breakdown = Some [(''building_shape'', 12), (''proportions'', 18)],
      fixing_prompt = None,
      trace = [Judged ''shot context_street'' [1] (demo_verification 90)]\<rparr>"
  by (simp add: regen_loop_run_def regen_world_def hero_image_entry_def hero_entry_def
        get_aspect_ratio_for_shot_def always_90_def demo_simps demo_verification_def
        cong: let_weak_cong old.prod.case_cong_weak)

lemma regen_loop_run_clock: "clock (fst (regen_loop_run imgs)) = 2"
  by (simp add: regen_loop_run_def regen_world_def hero_image_entry_def hero_entry_def
        get_aspect_ratio_for_shot_def always_90_def demo_simps demo_verification_def
        cong: let_weak_cong old.prod.case_cong_weak)

lemma street_shot_by_id: "get_shot_by_id ''context_street'' = Some street_shot"
  by (simp add: get_shot_by_id_def SHOT_TYPES_def mk_shot_def street_shot_def)

lemma hero_first:
  "find isHero (hero_image_entry # rest) = Some hero_image_entry"
  "variationType hero_image_entry = ''hero_facade''"
  "filename hero_image_entry = ''hero_facade_20260101_000000.png''"
  "isHero hero_image_entry"
  by (simp_all add: hero_image_entry_def hero_entry_def)

lemma street_fields:
  "variationType street_image_entry = ''context_street''"
  "entry_id street_image_entry = Some ''j_2''"
  "consistencyScore street_image_entry = 75"
  by (simp_all add: street_image_entry_def shot_entry_def Let_def street_shot_def mk_shot_def
        demo_job_def str_int_def digits.simps)

text \<open>
  Witness for C10: the manifest holds the hero only (the street shot was skipped);
  regenerating the street shot leaves the list as it was, sets the timestamp and writes
  the file.
\<close>

theorem regeneration_without_entry_keeps_images_witness:
  "\<exists>w'. regen_run [hero_image_entry] = Inr w'
     \<and> map_option m_images (manifest_json w') = Some (Some [hero_image_entry])
     \<and> map_option m_updated_at (manifest_json (regen_world [hero_image_entry])) = Some None
     \<and> map_option m_updated_at (manifest_json w') = Some (Some ''2026-01-01T00:00:00'')
     \<and> files w' ''out/context_street_20260101_000000.png'' = Some [1]"
proof -
  let ?env = "demo_env always_image always_90"
  let ?imgs = "[hero_image_entry]"
  let ?m = "\<lparr>m_job_id = ''j'', m_created_at = ''2026-01-01T00:00:00'',
             m_images = Some ?imgs, m_updated_at = None\<rparr>"
  have m: "manifest_json (regen_world ?imgs) = Some ?m" by (simp add: regen_world_def)
  have i: "m_images ?m = Some ?imgs" by simp
  have nomatch: "\<forall>img\<in>set ?imgs. variationType img \<noteq> ''context_street''"
    by (simp add: hero_first)
  have f: "files (regen_world ?imgs) (path_join ''out'' (filename hero_image_entry)) \<noteq> None"
    by (simp add: regen_world_def hero_first path_join_def)
  have run: "regen_loop ?env RegenerateSingle ''out'' street_shot
           (path_join ''out'' (filename hero_image_entry))
           (get_aspect_ratio_for_shot ''context_street'') (regen_world ?imgs) initial_loop_state
           = (fst (regen_loop_run ?imgs), snd (regen_loop_run ?imgs))"
    by (simp add: regen_loop_run_def)
  have t: "truthy (best_image_data (snd (regen_loop_run ?imgs)))"
    by (simp add: regen_loop_run_state truthy_def)
  from regeneration_without_entry_keeps_images
    [OF m i nomatch street_shot_by_id hero_first(1) f run t, of "''j''"]
  obtain w' where w': "regen_run ?imgs = Inr w'"
    "manifest_json w' = Some (?m\<lparr>m_updated_at :=
        Some (now_isoformat ?env (clock (fst (regen_loop_run ?imgs)) + 2))\<rparr>)"
    "files w' (path_join ''out'' (''context_street'' @ ''_''
        @ now_strftime ?env (clock (fst (regen_loop_run ?imgs))) @ ''.png''))
       = best_image_data (snd (regen_loop_run ?imgs))"
    unfolding regen_run_def by blast
  have "now_isoformat ?env n = ''2026-01-01T00:00:00''"
    "now_strftime ?env n = ''20260101_000000''" for n
    by (simp_all add: demo_env_def)
  with w' show ?thesis
    by (intro exI [of _ w'])
       (simp add: regen_world_def regen_loop_run_state path_join_def)
qed

text \<open>
  An instance of the replacement: the street entry (id \<^verbatim>\<open>j_2\<close>, score 75) is replaced at its position by
  the regenerated one (score 90), which keeps the id.
\<close>

theorem regeneration_replaces_in_place_witness:
  "\<exists>w' m' e. regen_run [hero_image_entry, street_image_entry] = Inr w'
     \<and> manifest_json w' = Some m'
     \<and> m_images m' = Some [hero_image_entry, e]
     \<and> entry_id e = Some ''j_2''
     \<and> consistencyScore street_image_entry = 75 \<and> consistencyScore e = 90"
proof -
  let ?env = "demo_env always_image always_90"
  let ?imgs = "[hero_image_entry, street_image_entry]"
  let ?m = "\<lparr>m_job_id = ''j'', m_created_at = ''2026-01-01T00:00:00'',
             m_images = Some ?imgs, m_updated_at = None\<rparr>"
  have m: "manifest_json (regen_world ?imgs) = Some ?m" by (simp add: regen_world_def)
  have i: "m_images ?m = Some ?imgs" by simp
  have f: "files (regen_world ?imgs) (path_join ''out'' (filename hero_image_entry)) \<noteq> None"
    by (simp add: regen_world_def hero_first path_join_def)
  have run: "regen_loop ?env RegenerateSingle ''out'' street_shot
           (path_join ''out'' (filename hero_image_entry))
           (get_aspect_ratio_for_shot ''context_street'') (regen_world ?imgs) initial_loop_state
           = (fst (regen_loop_run ?imgs), snd (regen_loop_run ?imgs))"
    by (simp add: regen_loop_run_def)
  have t: "truthy (best_image_data (snd (regen_loop_run ?imgs)))"
    by (simp add: regen_loop_run_state truthy_def)
  have hero: "find isHero (dict_get (m_images ?m) []) = Some hero_image_entry"
    by (simp add: hero_first)
  have at: "(1::nat) < length ?imgs" "variationType (?imgs ! 1) = ''context_street''"
    "\<forall>j<(1::nat). variationType (?imgs ! j) \<noteq> ''context_street''"
    "entry_id (?imgs ! 1) = Some ''j_2''"
    by (simp_all add: street_fields hero_first)
  let ?w1 = "fst (regen_loop_run ?imgs)"
  let ?new = "regenerated_entry ?env ''j'' ''context_street'' street_shot
                (get_aspect_ratio_for_shot ''context_street'')
                (now_strftime ?env (clock ?w1)) (now_isoformat ?env (clock ?w1 + 1))
                (snd (regen_loop_run ?imgs))"
  let ?w2 = "?w1\<lparr>files := (files ?w1)
               (path_join ''out'' (''context_street'' @ ''_'' @ now_strftime ?env (clock ?w1) @ ''.png'')
                  \<mapsto> dict_get (best_image_data (snd (regen_loop_run ?imgs))) []),
             clock := clock ?w1 + 2\<rparr>"
  from regen_loop_extends [OF run] m have m2: "manifest_json ?w2 = Some ?m"
    by (simp add: extends_def)
  from update_manifest_images [OF m2 i replace_entry_at [OF at], of ?env ?new]
  obtain w' where "update_manifest ?env ''context_street'' ?new ?w2 = Inr w'" by blast
  with regenerate_single_main_generated [OF m street_shot_by_id hero f run t, of "''j''"]
  have w': "regen_run ?imgs = Inr w'" by (simp add: regen_run_def)
  from regeneration_replaces_in_place [OF m i at w' [unfolded regen_run_def]]
  obtain m' e shot hero' w1 s where r:
    "manifest_json w' = Some m'" "m_images m' = Some (?imgs[1 := e])"
    "get_shot_by_id ''context_street'' = Some shot"
    "regen_loop ?env RegenerateSingle ''out'' shot (path_join ''out'' (filename hero'))
       (get_aspect_ratio_for_shot ''context_street'') (regen_world ?imgs) initial_loop_state = (w1, s)"
    "find isHero ?imgs = Some hero'"
    "e = (regenerated_entry ?env ''j'' ''context_street'' shot
            (get_aspect_ratio_for_shot ''context_street'')
            (now_strftime ?env (clock w1)) (now_isoformat ?env (clock w1 + 1)) s)
           \<lparr>entry_id := entry_id (?imgs ! 1)\<rparr>"
    "entry_id e = entry_id (?imgs ! 1)"
    by blast
  from r(3) street_shot_by_id have "shot = street_shot" by simp
  moreover from r(5) have "hero' = hero_image_entry" by (simp add: hero_first)
  ultimately have "s = snd (regen_loop_run ?imgs)" using r(4) run by simp
  with r(6) have "consistencyScore e = 90"
    by (simp add: regenerated_entry_def Let_def regen_loop_run_state)
  with w' r(1,2,7) show ?thesis by (simp add: street_fields)
qed

section \<open>The project driver, stage by stage\<close>

lemma update_status_eq:
  "update_status env d w =
     w\<lparr>status_json := Some (merged env d w), clock := clock w + 1,
       log := log w @ [StatusWrite (merged env d w)]\<rparr>"
  by (simp add: update_status_def merged_def Let_def)

lemma dict_lookup_set:
  "dict_lookup (dict_set k v d) k' = (if k' = k then Some v else dict_lookup d k')"
  by (simp add: dict_lookup_def dict_set_def update_conv')

lemma dict_update_Nil [simp]: "dict_update d [] = d"
  and dict_update_Cons [simp]: "dict_update d ((k, v) # e) = dict_update (dict_set k v d) e"
  by (simp_all add: dict_update_def)

lemma has_images_update_status [simp]:
  "has_images (update_status env d w) imgs = has_images w imgs"
  by (simp add: update_status_eq has_images_def)

lemma judged_as_none_profile: "judged_as e = None \<Longrightarrow> judged_by_profile shot e"
  by (simp add: judged_by_profile_def)

lemma save_image_to_manifest_ok:
  assumes "has_images w imgs"
  shows "\<exists>w'. save_image_to_manifest env jid e w = Inr w'
           \<and> has_images w' (imgs @ [e])
           \<and> files w' = files w
           \<and> status_json w' = map_option (dict_set ''images'' (JImages (imgs @ [e]))) (status_json w)
           \<and> log w' = log w @ (case status_json w of
                                   None \<Rightarrow> []
                                 | Some st \<Rightarrow> [StatusWrite (dict_set ''images'' (JImages (imgs @ [e])) st)])"
  using assms
  by (cases "status_json w") (auto simp: save_image_to_manifest_def Let_def has_images_def)

lemma finish_shot_ok:
  assumes "has_images w imgs"
  shows "\<exists>w' c stored evs.
           finish_shot env job timestamp shot aspect_ratio s w completed = Inr (w', c)
           \<and> has_images w' (imgs @ stored)
           \<and> log w' = log w @ evs \<and> (\<forall>e\<in>set evs. judged_as e = None)
           \<and> (if truthy (best_image_data s)
               then stored = [shot_entry env job timestamp shot aspect_ratio completed
                               (now_isoformat env (clock w)) s] \<and> c = completed + 1
               else stored = [] \<and> c = completed \<and> w' = w)"
proof (cases "truthy (best_image_data s)")
  case False
  with assms show ?thesis by (simp add: finish_shot_def)
next
  case True
  let ?e = "shot_entry env job timestamp shot aspect_ratio completed (now_isoformat env (clock w)) s"
  let ?w1 = "w\<lparr>files := (files w)(path_join (a_output_dir job) (filename ?e)
                  \<mapsto> dict_get (best_image_data s) []), clock := clock w + 1\<rparr>"
  from assms have "has_images ?w1 imgs" by (simp add: has_images_def)
  from save_image_to_manifest_ok [OF this, of env "a_job_id job" ?e]
  obtain w' where w': "save_image_to_manifest env (a_job_id job) ?e ?w1 = Inr w'"
    "has_images w' (imgs @ [?e])"
    "log w' = log ?w1 @ (case status_json ?w1 of None \<Rightarrow> []
        | Some st \<Rightarrow> [StatusWrite (dict_set ''images'' (JImages (imgs @ [?e])) st)])"
    by blast
  from True w'(1) have "finish_shot env job timestamp shot aspect_ratio s w completed
      = Inr (w', completed + 1)"
    by (simp add: finish_shot_def Let_def)
  moreover from w'(3) have "\<exists>evs. log w' = log w @ evs \<and> (\<forall>e\<in>set evs. judged_as e = None)"
    by (cases "status_json w") simp_all
  ultimately show ?thesis using True w'(2) by auto
qed

lemma process_shot_ok:
  assumes "has_images w imgs"
  shows "\<exists>w' c stored evs.
           process_shot env job timestamp hero_path total_shots shot w completed = Inr (w', c)
           \<and> has_images w' (imgs @ stored)
           \<and> log w' = log w @ StatusWrite (merged env (shot_status completed total_shots shot) w) # evs
           \<and> (\<forall>e\<in>set evs. judged_by_profile shot e)"
proof -
  let ?ar = "get_aspect_ratio_for_shot (sh_id shot)"
  let ?w1 = "update_status env (shot_status completed total_shots shot) w"
  obtain w2 s where run: "regen_loop env GenerateProject (a_output_dir job) shot hero_path ?ar
                            ?w1 initial_loop_state = (w2, s)"
    by (cases "regen_loop env GenerateProject (a_output_dir job) shot hero_path ?ar
                 ?w1 initial_loop_state") auto
  from regen_loop_extends [OF run] obtain evs1 where e1:
    "manifest_json w2 = manifest_json ?w1" "log w2 = log ?w1 @ evs1"
    "\<forall>e\<in>set evs1. judged_by_profile shot e"
    by (auto simp: extends_def)
  from assms e1(1) have "has_images w2 imgs" by (simp add: has_images_def update_status_eq)
  from finish_shot_ok [OF this, of env job timestamp shot ?ar s completed]
  obtain w' c stored evs2 where f:
    "finish_shot env job timestamp shot ?ar s w2 completed = Inr (w', c)"
    "has_images w' (imgs @ stored)" "log w' = log w2 @ evs2" "\<forall>e\<in>set evs2. judged_as e = None"
    by blast
  from run f(1) have "process_shot env job timestamp hero_path total_shots shot w completed
      = Inr (w', c)"
    by (simp add: process_shot_def Let_def shot_status_def)
  moreover from f(3) e1(2)
  have "log w' = log w @ StatusWrite (merged env (shot_status completed total_shots shot) w)
                  # (evs1 @ evs2)"
    by (simp add: update_status_eq)
  moreover from e1(3) f(4) have "\<forall>e\<in>set (evs1 @ evs2). judged_by_profile shot e"
    by (auto intro: judged_as_none_profile)
  ultimately show ?thesis using f(2) by blast
qed

lemma profile_spares_hero:
  "judged_by_profile shot e \<Longrightarrow> sh_id shot \<noteq> ''hero_facade'' \<Longrightarrow> spares_hero e"
  by (auto simp: judged_by_profile_def spares_hero_def split: option.splits)

lemma shots_loop_ok:
  assumes "has_images w imgs"
  shows "\<exists>w' c stored evs.
           shots_loop env job timestamp hero_path total_shots shots w completed = Inr (w', c)
           \<and> has_images w' (imgs @ stored)
           \<and> log w' = log w @ evs \<and> (\<forall>e\<in>set evs. spares_hero e)
           \<and> (\<forall>shot rest. filter (\<lambda>s. sh_id s \<noteq> ''hero_facade'') shots = shot # rest \<longrightarrow>
                 (\<exists>evs'. evs = StatusWrite (merged env (shot_status completed total_shots shot) w)
                                 # evs'))"
  using assms
proof (induction shots arbitrary: w completed imgs)
  case Nil
  then have "\<exists>stored. has_images w (imgs @ stored)" by (metis append_Nil2)
  then show ?case by simp
next
  case (Cons shot shots)
  show ?case
  proof (cases "sh_id shot = ''hero_facade''")
    case True
    with Cons.IH [OF Cons.prems, of completed] show ?thesis by simp
  next
    case False
    from process_shot_ok [OF Cons.prems, of env job timestamp hero_path total_shots shot completed]
    obtain w1 c1 stored1 evs1 where p:
      "process_shot env job timestamp hero_path total_shots shot w completed = Inr (w1, c1)"
      "has_images w1 (imgs @ stored1)"
      "log w1 = log w @ StatusWrite (merged env (shot_status completed total_shots shot) w) # evs1"
      "\<forall>e\<in>set evs1. judged_by_profile shot e"
      by blast
    from Cons.IH [OF p(2), of c1]
    obtain w' c stored evs where r:
      "shots_loop env job timestamp hero_path total_shots shots w1 c1 = Inr (w', c)"
      "has_images w' ((imgs @ stored1) @ stored)" "log w' = log w1 @ evs"
      "\<forall>e\<in>set evs. spares_hero e"
      by blast
    let ?evs = "StatusWrite (merged env (shot_status completed total_shots shot) w) # evs1 @ evs"
    from False p(1) r(1)
    have "shots_loop env job timestamp hero_path total_shots (shot # shots) w completed = Inr (w', c)"
      by simp
    moreover from r(2) have "has_images w' (imgs @ (stored1 @ stored))" by simp
    moreover from p(3) r(3) have "log w' = log w @ ?evs" by simp
    moreover have "\<forall>e\<in>set ?evs. spares_hero e"
    proof
      fix e assume "e \<in> set ?evs"
      then consider "e = StatusWrite (merged env (shot_status completed total_shots shot) w)"
        | "e \<in> set evs1" | "e \<in> set evs" by auto
      then show "spares_hero e"
      proof cases
        case 1 then show ?thesis by (simp add: spares_hero_def)
      next
        case 2 with p(4) False show ?thesis by (blast intro: profile_spares_hero)
      next
        case 3 with r(4) show ?thesis by blast
      qed
    qed
    ultimately show ?thesis using False by (intro exI conjI) auto
  qed
qed

lemma hero_aspect_ratio_eq: "get_aspect_ratio_for_shot ''hero_facade'' = ''16:9''"
  by (simp add: get_aspect_ratio_for_shot_def)

lemma generate_project_main_eq:
  "generate_project_main env job w =
     (case hero_stage env job (now_strftime env (clock w + 3)) (int (length (shots_of env job)))
             ''16:9'' (prepared env job w) of
        Inl e \<Rightarrow> Inl e
      | Inr (None, w1) \<Rightarrow> Inr w1
      | Inr (Some hero_path, w1) \<Rightarrow>
          (case shots_loop env job (now_strftime env (clock w + 3)) hero_path
                  (int (length (shots_of env job))) (shots_of env job) w1 1 of
             Inl e \<Rightarrow> Inl e
           | Inr (w2, completed) \<Rightarrow>
               Inr (update_status env
                      (complete_status (int (length (shots_of env job))) completed) w2)))"
proof -
  have c: "clock (update_status env d w) = clock w + 1" for d w
    by (simp add: update_status_eq)
  have step: "generate_project_main env job w =
     (let shots_list = shots_of env job;
          total_shots = int (length shots_list);
          w = update_status env (parsing_status job) w;
          w = update_status env
                [(''totalImages'', JInt total_shots),
                 (''message'', JStr ''Project parsed, starting generation...'')] w;
          w = w\<lparr>manifest_json :=
                   Some \<lparr>m_job_id = a_job_id job, m_created_at = now_isoformat env (clock w),
                         m_images = Some [], m_updated_at = None\<rparr>,
                 clock := clock w + 1\<rparr>;
          hero_aspect_ratio = get_aspect_ratio_for_shot ''hero_facade'';
          timestamp = now_strftime env (clock w);
          w = w\<lparr>clock := clock w + 1\<rparr>
      in case hero_stage env job timestamp total_shots hero_aspect_ratio w of
           Inl e \<Rightarrow> Inl e
         | Inr (None, w) \<Rightarrow> Inr w
         | Inr (Some hero_path, w) \<Rightarrow>
             (case shots_loop env job timestamp hero_path total_shots shots_list w 1 of
                Inl e \<Rightarrow> Inl e
              | Inr (w, completed) \<Rightarrow>
                  Inr (update_status env
                         [(''status'', JStr ''complete''),
                          (''progress'', JInt 100),
                          (''currentImage'', JInt total_shots),
                          (''totalImages'', JInt total_shots),
                          (''message'', JStr (''Generated '' @ str_int completed @ '' images''))]
                         w)))"
    unfolding generate_project_main_def shots_of_def parsing_status_def Let_def
    by (rule refl)
  have n: "k + 2 = Suc (Suc k)" "k + 3 = Suc (Suc (Suc k))" "k + 4 = Suc (Suc (Suc (Suc k)))"
    for k :: nat
    by simp_all
  note defs = Let_def hero_aspect_ratio_eq c n prepared_def
    parsed_status_def complete_status_def
  let ?ts = "now_strftime env (clock w + 3)"
  let ?n = "int (length (shots_of env job))"
  let ?h = "hero_stage env job ?ts ?n ''16:9'' (prepared env job w)"
  show ?thesis
  proof (cases ?h)
    case (Inl e)
    then show ?thesis unfolding step by (simp add: defs)
  next
    case (Inr r)
    obtain hp w1 where r: "r = (hp, w1)" by (cases r)
    show ?thesis
    proof (cases hp)
      case None
      with Inr r show ?thesis unfolding step by (simp add: defs)
    next
      case (Some hero_path)
      let ?l = "shots_loop env job ?ts hero_path ?n (shots_of env job) w1 1"
      show ?thesis
      proof (cases ?l)
        case l: (Inl e)
        with Inr r Some show ?thesis unfolding step by (simp add: defs)
      next
        case l: (Inr q)
        obtain w2 completed where "q = (w2, completed)" by (cases q)
        with l Inr r Some show ?thesis unfolding step by (simp add: defs)
      qed
    qed
  qed
qed

lemma dict_lookup_update_other:
  "k \<notin> fst ` set e \<Longrightarrow> dict_lookup (dict_update d e) k = dict_lookup d k"
  by (induction e arbitrary: d) (auto simp: dict_lookup_set)

lemma progress_kept:
  "''progress'' \<notin> fst ` set d \<Longrightarrow>
     dict_lookup (merged env d w) ''progress''
       = (case status_json w of None \<Rightarrow> None | Some d0 \<Rightarrow> dict_lookup d0 ''progress'')"
proof -
  assume k: "''progress'' \<notin> fst ` set d"
  have nil: "dict_lookup [] ''progress'' = None" by (simp add: dict_lookup_def)
  show ?thesis
    by (cases "status_json w")
       (simp_all add: merged_def dict_lookup_set dict_lookup_update_other [OF k] nil)
qed

lemma progress_parsing: "dict_lookup (merged env (parsing_status job) w) ''progress'' = Some (JInt 2)"
  by (simp add: merged_def parsing_status_def dict_lookup_set)

lemma progress_approved:
  "dict_lookup (merged env (approved_status n) w) ''progress'' = Some (JInt 10)"
  by (simp add: merged_def approved_status_def dict_lookup_set)

lemma progress_shot:
  "dict_lookup (merged env (shot_status c n shot) w) ''progress'' = Some (JInt (shot_progress c n))"
  by (simp add: merged_def shot_status_def dict_lookup_set)

lemma status_error:
  "dict_lookup (merged env error_status w) ''status'' = Some (JStr ''error'')"
  by (simp add: merged_def error_status_def dict_lookup_set)

lemma prepared_facts:
  "has_images (prepared env job w) []"
  "files (prepared env job w) = files w"
  "clock (prepared env job w) = clock w + 4"
  "log (prepared env job w) =
     log w @ [StatusWrite (merged env (parsing_status job) w),
              StatusWrite (merged env (parsed_status env job)
                             (update_status env (parsing_status job) w))]"
  "status_json (prepared env job w) \<noteq> None"
  by (simp_all add: prepared_def has_images_def update_status_eq)

lemma progress_parsed:
  "dict_lookup (merged env (parsed_status env job) (update_status env (parsing_status job) w))
     ''progress'' = Some (JInt 2)"
  by (simp add: progress_kept parsed_status_def update_status_eq progress_parsing)

lemma hero_stage_approved:
  assumes "from_hero_applies job w" and "has_images w []" and "status_json w \<noteq> None"
  shows "\<exists>hp w' d. hero_stage env job ts tot ar w = Inr (Some hp, w')
           \<and> has_images w' [hero_entry job (path_name (dict_get (a_from_hero job) [])) ar
                              (now_isoformat env (clock w + 1))]
           \<and> log w' = log w @ [StatusWrite (merged env (approved_status tot) w), StatusWrite d]
           \<and> dict_lookup d ''progress'' = Some (JInt 10)"
proof -
  let ?fh = "dict_get (a_from_hero job) []"
  let ?out = "path_join (a_output_dir job) (path_name ?fh)"
  let ?w1 = "update_status env (approved_status tot) w"
  let ?w2 = "if ?fh \<noteq> ?out then ?w1\<lparr>files := (files ?w1)(?out := files ?w1 ?fh)\<rparr> else ?w1"
  let ?hp = "if ?fh \<noteq> ?out then ?out else ?fh"
  let ?e = "hero_entry job (path_name ?fh) ar (now_isoformat env (clock w + 1))"
  let ?w3 = "?w2\<lparr>clock := clock ?w2 + 1\<rparr>"
  from assms(2) have h3: "has_images ?w3 []" by (simp add: has_images_def update_status_eq)
  have st: "status_json ?w3 = Some (merged env (approved_status tot) w)"
    and lg: "log ?w3 = log w @ [StatusWrite (merged env (approved_status tot) w)]"
    and ck: "clock ?w2 = clock w + 1"
    by (simp_all add: update_status_eq)
  from save_image_to_manifest_ok [OF h3, of env "a_job_id job" ?e]
  obtain w' where w': "save_image_to_manifest env (a_job_id job) ?e ?w3 = Inr w'"
    "has_images w' ([] @ [?e])"
    "log w' = log ?w3 @ (case status_json ?w3 of None \<Rightarrow> []
        | Some st \<Rightarrow> [StatusWrite (dict_set ''images'' (JImages ([] @ [?e])) st)])"
    by blast
  from h3 have al: "(case manifest_json ?w3 of None \<Rightarrow> False
        | Some existing_manifest \<Rightarrow> list_ex isHero (dict_get (m_images existing_manifest) []))
        = False"
    by (auto simp: has_images_def)
  from assms(1) have app: "truthy (a_from_hero job) \<and> files w ?fh \<noteq> None"
    by (simp add: from_hero_applies_def)
  have "hero_stage env job ts tot ar w = Inr (Some ?hp, w')"
    unfolding hero_stage_def approved_status_def [symmetric]
    using app al w'(1) by (simp add: Let_def ck)
  moreover from w'(3) [unfolded st lg]
  have "log w' = log w @ [StatusWrite (merged env (approved_status tot) w),
      StatusWrite (dict_set ''images'' (JImages [?e]) (merged env (approved_status tot) w))]"
    by simp
  moreover have "dict_lookup (dict_set ''images'' (JImages [?e]) (merged env (approved_status tot) w))
      ''progress'' = Some (JInt 10)"
    by (simp add: dict_lookup_set progress_approved)
  ultimately show ?thesis using w'(2) by auto
qed

lemma hero_stage_fresh:
  assumes "\<not> from_hero_applies job w" and "has_images w imgs"
    and r_def: "r = image_model env (clock w + 1) (build_hero_generation_prompt env (a_user_prompt job))
                  None ar"
  shows "if truthy r
         then \<exists>w' d. hero_stage env job ts tot ar w
                  = Inr (Some (path_join (a_output_dir job) (''hero_facade_'' @ ts @ ''.png'')), w')
                \<and> has_images w' (imgs @ [hero_entry job (''hero_facade_'' @ ts @ ''.png'') ar
                                           (now_isoformat env (clock w + 2))])
                \<and> log w' = log w @ [StatusWrite (merged env generating_hero_status w),
                     Generate (build_hero_generation_prompt env (a_user_prompt job)) None r,
                     StatusWrite d]
         else \<exists>w'. hero_stage env job ts tot ar w = Inr (None, w')
                \<and> has_images w' imgs
                \<and> (\<exists>d. status_json w' = Some d \<and> dict_lookup d ''status'' = Some (JStr ''error'')
                     \<and> log w' = log w @ [StatusWrite (merged env generating_hero_status w),
                          Generate (build_hero_generation_prompt env (a_user_prompt job)) None r,
                          StatusWrite d])"
proof -
  let ?p = "build_hero_generation_prompt env (a_user_prompt job)"
  let ?w1 = "update_status env generating_hero_status w"
  let ?w2 = "?w1\<lparr>clock := clock ?w1 + 1, log := log ?w1 @ [Generate ?p None r]\<rparr>"
  have g: "generate_image env ?p None ar ?w1 = (r, ?w2)"
    by (simp add: generate_image_def Let_def r_def update_status_eq)
  from assms(1) have napp: "\<not> (truthy (a_from_hero job) \<and> files w (dict_get (a_from_hero job) []) \<noteq> None)"
    by (simp add: from_hero_applies_def)
  show ?thesis
  proof (cases "truthy r")
    case False
    let ?w' = "update_status env error_status ?w2"
    have "hero_stage env job ts tot ar w = Inr (None, ?w')"
      unfolding hero_stage_def if_not_P [OF napp]
        generating_hero_status_def [symmetric] error_status_def [symmetric]
      using g False by (simp add: Let_def)
    moreover from assms(2) have "has_images ?w' imgs" by (simp add: has_images_def update_status_eq)
    moreover have "status_json ?w' = Some (merged env error_status ?w2)"
      "log ?w' = log w @ [StatusWrite (merged env generating_hero_status w),
                          Generate ?p None r, StatusWrite (merged env error_status ?w2)]"
      by (simp_all add: update_status_eq)
    ultimately show ?thesis using False status_error by auto
  next
    case True
    let ?fn = "''hero_facade_'' @ ts @ ''.png''"
    let ?hp = "path_join (a_output_dir job) ?fn"
    let ?e = "hero_entry job ?fn ar (now_isoformat env (clock w + 2))"
    let ?w3 = "?w2\<lparr>files := (files ?w2)(?hp \<mapsto> dict_get r []), clock := clock ?w2 + 1\<rparr>"
    from assms(2) have h3: "has_images ?w3 imgs" by (simp add: has_images_def update_status_eq)
    from save_image_to_manifest_ok [OF h3, of env "a_job_id job" ?e]
    obtain w' where w': "save_image_to_manifest env (a_job_id job) ?e ?w3 = Inr w'"
      "has_images w' (imgs @ [?e])"
      "log w' = log ?w3 @ (case status_json ?w3 of None \<Rightarrow> []
          | Some st \<Rightarrow> [StatusWrite (dict_set ''images'' (JImages (imgs @ [?e])) st)])"
      by blast
    have ck: "clock ?w2 = clock w + 2" "clock ?w1 = clock w + 1" by (simp_all add: update_status_eq)
    have "hero_stage env job ts tot ar w = Inr (Some ?hp, w')"
      unfolding hero_stage_def if_not_P [OF napp] generating_hero_status_def [symmetric]
      using g True w'(1) by (simp add: Let_def ck)
    moreover from w'(3) have "\<exists>d. log w' = log w @ [StatusWrite (merged env generating_hero_status w),
                          Generate ?p None r, StatusWrite d]"
      by (simp add: update_status_eq)
    ultimately show ?thesis using True w'(2) by auto
  qed
qed

lemma shots_of_cases:
  "shots_of env job = SHOT_TYPES \<or> shots_of env job = SHOT_TYPES @ MULTI_UNIT_EXTRA_SHOTS"
proof -
  have a: "get_all_shots_ordered = SHOT_TYPES"
    by (simp add: get_all_shots_ordered_def SHOT_TYPES_def mk_shot_def)
  have b: "sort_key sh_order MULTI_UNIT_EXTRA_SHOTS = MULTI_UNIT_EXTRA_SHOTS"
    by (simp add: MULTI_UNIT_EXTRA_SHOTS_def mk_shot_def)
  show ?thesis
    unfolding shots_of_def get_shots_for_project_type_def Let_def a b by simp
qed

lemma first_shot:
  "\<exists>shot rest. filter (\<lambda>s. sh_id s \<noteq> ''hero_facade'') (shots_of env job) = shot # rest"
  using shots_of_cases [of env job]
  by (auto simp: SHOT_TYPES_def mk_shot_def)

lemma first_progress: "shot_progress 1 (int (length (shots_of env job))) = 5"
  using shots_of_cases [of env job]
  by (auto simp: SHOT_TYPES_def MULTI_UNIT_EXTRA_SHOTS_def shot_progress_def)

lemma progress_history_append:
  "progress_history (xs @ ys) = progress_history xs @ progress_history ys"
  by (induction xs) (simp_all add: progress_history_def map_filter_simps split: option.splits)

lemma progress_history_status:
  "progress_history (StatusWrite d # evs) = dict_lookup d ''progress'' # progress_history evs"
  "progress_history [] = []"
  by (simp_all add: progress_history_def map_filter_simps)

lemma from_hero_applies_prepared:
  "from_hero_applies job (prepared env job w) = from_hero_applies job w"
  by (simp add: from_hero_applies_def prepared_facts)

lemma main_with_approved_hero:
  assumes "from_hero_applies job w"
  shows "\<exists>w' a d shot evs z.
           generate_project_main env job w = Inr w'
           \<and> log w' = log w @
               [StatusWrite (merged env (parsing_status job) w),
                StatusWrite (merged env (parsed_status env job)
                               (update_status env (parsing_status job) w)),
                StatusWrite (merged env (approved_status (int (length (shots_of env job))))
                               (prepared env job w)),
                StatusWrite d,
                StatusWrite (merged env (shot_status 1 (int (length (shots_of env job))) shot) a)]
               @ evs @ [StatusWrite z]
           \<and> dict_lookup d ''progress'' = Some (JInt 10)
           \<and> (\<forall>e\<in>set evs. spares_hero e)"
proof -
  let ?p = "prepared env job w"
  let ?ts = "now_strftime env (clock w + 3)"
  let ?n = "int (length (shots_of env job))"
  from assms have app: "from_hero_applies job ?p" by (simp add: from_hero_applies_prepared)
  from hero_stage_approved [OF app prepared_facts(1) prepared_facts(5), of env ?ts ?n "''16:9''"]
  obtain hp w1 d where h:
    "hero_stage env job ?ts ?n ''16:9'' ?p = Inr (Some hp, w1)"
    "has_images w1 [hero_entry job (path_name (dict_get (a_from_hero job) [])) ''16:9''
                      (now_isoformat env (clock ?p + 1))]"
    "log w1 = log ?p @ [StatusWrite (merged env (approved_status ?n) ?p), StatusWrite d]"
    "dict_lookup d ''progress'' = Some (JInt 10)"
    by blast
  from shots_loop_ok [OF h(2), of env job ?ts hp ?n "shots_of env job" 1]
  obtain w2 c stored evs where l:
    "shots_loop env job ?ts hp ?n (shots_of env job) w1 1 = Inr (w2, c)"
    "log w2 = log w1 @ evs" "\<forall>e\<in>set evs. spares_hero e"
    "\<forall>shot rest. filter (\<lambda>s. sh_id s \<noteq> ''hero_facade'') (shots_of env job) = shot # rest \<longrightarrow>
       (\<exists>evs'. evs = StatusWrite (merged env (shot_status 1 ?n shot) w1) # evs')"
    by blast
  from first_shot [of env job] l(4) obtain shot evs'
    where e: "evs = StatusWrite (merged env (shot_status 1 ?n shot) w1) # evs'"
    by blast
  let ?w' = "update_status env (complete_status ?n c) w2"
  have m: "generate_project_main env job w = Inr ?w'"
    by (simp add: generate_project_main_eq h(1) l(1))
  have "log ?w' = log w @
               [StatusWrite (merged env (parsing_status job) w),
                StatusWrite (merged env (parsed_status env job)
                               (update_status env (parsing_status job) w)),
                StatusWrite (merged env (approved_status ?n) ?p),
                StatusWrite d,
                StatusWrite (merged env (shot_status 1 ?n shot) w1)]
               @ evs' @ [StatusWrite (merged env (complete_status ?n c) w2)]"
    by (simp add: update_status_eq l(2) h(3) e prepared_facts(4))
  moreover from l(3) e have "\<forall>e\<in>set evs'. spares_hero e" by simp
  ultimately show ?thesis using m h(4) by blast
qed

lemma main_with_fresh_hero:
  assumes "\<not> from_hero_applies job w"
    and "r = image_model env (clock w + 5) (build_hero_generation_prompt env (a_user_prompt job))
               None ''16:9''"
    and "truthy r"
  shows "\<exists>w' a b c d evs stored.
           generate_project_main env job w = Inr w'
           \<and> has_images w'
                (hero_entry job (''hero_facade_'' @ now_strftime env (clock w + 3) @ ''.png'')
                   ''16:9'' (now_isoformat env (clock w + 6)) # stored)
           \<and> log w' = log w @
               [StatusWrite a, StatusWrite b, StatusWrite c,
                Generate (build_hero_generation_prompt env (a_user_prompt job)) None r,
                StatusWrite d] @ evs
           \<and> (\<forall>e\<in>set evs. spares_hero e)"
proof -
  let ?p = "prepared env job w"
  let ?ts = "now_strftime env (clock w + 3)"
  let ?n = "int (length (shots_of env job))"
  let ?e = "hero_entry job (''hero_facade_'' @ ?ts @ ''.png'') ''16:9''
              (now_isoformat env (clock w + 6))"
  from assms(1) have napp: "\<not> from_hero_applies job ?p" by (simp add: from_hero_applies_prepared)
  from assms(2) have r: "r = image_model env (clock ?p + 1)
      (build_hero_generation_prompt env (a_user_prompt job)) None ''16:9''"
    by (simp add: prepared_facts(3) ac_simps)
  have ck: "clock ?p + 2 = clock w + 6" by (simp add: prepared_facts(3))
  from hero_stage_fresh [OF napp prepared_facts(1) r, of ?ts ?n] assms(3)
  have "\<exists>w' d. hero_stage env job ?ts ?n ''16:9'' ?p
                  = Inr (Some (path_join (a_output_dir job) (''hero_facade_'' @ ?ts @ ''.png'')), w')
                \<and> has_images w' ([] @ [hero_entry job (''hero_facade_'' @ ?ts @ ''.png'') ''16:9''
                                           (now_isoformat env (clock ?p + 2))])
                \<and> log w' = log ?p @ [StatusWrite (merged env generating_hero_status ?p),
                     Generate (build_hero_generation_prompt env (a_user_prompt job)) None r,
                     StatusWrite d]"
    by (simp only: if_True)
  then obtain w1 d where h:
    "hero_stage env job ?ts ?n ''16:9'' ?p
       = Inr (Some (path_join (a_output_dir job) (''hero_facade_'' @ ?ts @ ''.png'')), w1)"
    "has_images w1 ([] @ [?e])"
    "log w1 = log ?p @ [StatusWrite (merged env generating_hero_status ?p),
                 Generate (build_hero_generation_prompt env (a_user_prompt job)) None r,
                 StatusWrite d]"
    unfolding ck by blast
  from shots_loop_ok [OF h(2), of env job ?ts
      "path_join (a_output_dir job) (''hero_facade_'' @ ?ts @ ''.png'')" ?n "shots_of env job" 1]
  obtain w2 c stored evs where l:
    "shots_loop env job ?ts (path_join (a_output_dir job) (''hero_facade_'' @ ?ts @ ''.png''))
       ?n (shots_of env job) w1 1 = Inr (w2, c)"
    "has_images w2 (([] @ [?e]) @ stored)"
    "log w2 = log w1 @ evs" "\<forall>e\<in>set evs. spares_hero e"
    by blast
  let ?w' = "update_status env (complete_status ?n c) w2"
  have m: "generate_project_main env job w = Inr ?w'"
    by (simp only: generate_project_main_eq h(1) l(1) sum.case prod.case option.case)
  from l(2) have i: "has_images ?w' (?e # stored)" by simp
  have g: "log ?w' = log w @
               [StatusWrite (merged env (parsing_status job) w),
                StatusWrite (merged env (parsed_status env job)
                               (update_status env (parsing_status job) w)),
                StatusWrite (merged env generating_hero_status ?p),
                Generate (build_hero_generation_prompt env (a_user_prompt job)) None r,
                StatusWrite d]
               @ (evs @ [StatusWrite (merged env (complete_status ?n c) w2)])"
    by (simp add: update_status_eq l(3) h(3) prepared_facts(4))
  from l(4) have "\<forall>e\<in>set (evs @ [StatusWrite (merged env (complete_status ?n c) w2)]). spares_hero e"
    by (simp add: spares_hero_def)
  with m i g show ?thesis by blast
qed

lemma main_without_hero:
  assumes "\<not> from_hero_applies job w"
    and "r = image_model env (clock w + 5) (build_hero_generation_prompt env (a_user_prompt job))
               None ''16:9''"
    and "\<not> truthy r"
  shows "\<exists>w' a b c d.
           generate_project_main env job w = Inr w'
           \<and> has_images w' []
           \<and> status_json w' = Some d \<and> dict_lookup d ''status'' = Some (JStr ''error'')
           \<and> log w' = log w @
               [StatusWrite a, StatusWrite b, StatusWrite c,
                Generate (build_hero_generation_prompt env (a_user_prompt job)) None r,
                StatusWrite d]"
proof -
  let ?p = "prepared env job w"
  let ?ts = "now_strftime env (clock w + 3)"
  let ?n = "int (length (shots_of env job))"
  from assms(1) have napp: "\<not> from_hero_applies job ?p" by (simp add: from_hero_applies_prepared)
  from assms(2) have r: "r = image_model env (clock ?p + 1)
      (build_hero_generation_prompt env (a_user_prompt job)) None ''16:9''"
    by (simp add: prepared_facts(3) ac_simps)
  from hero_stage_fresh [OF napp prepared_facts(1) r, of ?ts ?n] assms(3)
  have "\<exists>w'. hero_stage env job ?ts ?n ''16:9'' ?p = Inr (None, w')
                \<and> has_images w' []
                \<and> (\<exists>d. status_json w' = Some d \<and> dict_lookup d ''status'' = Some (JStr ''error'')
                     \<and> log w' = log ?p @ [StatusWrite (merged env generating_hero_status ?p),
                          Generate (build_hero_generation_prompt env (a_user_prompt job)) None r,
                          StatusWrite d])"
    by (simp only: if_False)
  then obtain w1 d where h:
    "hero_stage env job ?ts ?n ''16:9'' ?p = Inr (None, w1)"
    "has_images w1 []" "status_json w1 = Some d" "dict_lookup d ''status'' = Some (JStr ''error'')"
    "log w1 = log ?p @ [StatusWrite (merged env generating_hero_status ?p),
                 Generate (build_hero_generation_prompt env (a_user_prompt job)) None r,
                 StatusWrite d]"
    by blast
  have m: "generate_project_main env job w = Inr w1"
    by (simp add: generate_project_main_eq h(1))
  from h(5) have "log w1 = log w @
               [StatusWrite (merged env (parsing_status job) w),
                StatusWrite (merged env (parsed_status env job)
                               (update_status env (parsing_status job) w)),
                StatusWrite (merged env generating_hero_status ?p),
                Generate (build_hero_generation_prompt env (a_user_prompt job)) None r,
                StatusWrite d]"
    by (simp add: prepared_facts(4))
  with m h(2,3,4) show ?thesis by blast
qed

lemma demo_run_judge_error:
  "snd (demo_run (demo_env always_image always_error)) =
     \<lparr>attempts = 3, best_score = 0, best_image_data = None, best_breakdown = None,
      fixing_prompt = Some (build_fixing_prompt judge_error),
      trace =
        [Judged ''shot context_street'' [1] judge_error,
         Judged (''shot context_street'' @ newline @ newline
                   @ build_fixing_prompt judge_error) [1] judge_error,
         Judged (''shot context_street'' @ newline @ newline
                   @ build_fixing_prompt judge_error) [1] judge_error]\<rparr>"
  by (simp add: demo_simps always_error_def judge_error_def
        cong: let_weak_cong old.prod.case_cong_weak)

text \<open>
  C1. A manifest entry is stored exactly when \<open>best_image_data\<close> is set, and the loop sets
  it only for a judged score above the initial \<open>best_score\<close> of 0. When every attempt
  produces an image and the judge answers the dictionary it returns on an exception (score 0)
  each time, three images are produced and judged, none is retained, and \<^verbatim>\<open>main\<close> stores no
  entry: the world and the count of completed shots are unchanged. So a shot for which some
  attempt produced an image can end without a manifest entry.
\<close>

theorem judged_zero_image_is_skipped:
  "map produced_image (trace (snd (demo_run (demo_env always_image always_error))))
     = [True, True, True]
   \<and> judged_scores (trace (snd (demo_run (demo_env always_image always_error)))) = [0, 0, 0]
   \<and> best_image_data (snd (demo_run (demo_env always_image always_error))) = None
   \<and> finish_shot (demo_env always_image always_error) demo_job ''20260101_000000'' street_shot
        ''16:9'' (snd (demo_run (demo_env always_image always_error)))
        (fst (demo_run (demo_env always_image always_error))) 1
       = Inr (fst (demo_run (demo_env always_image always_error)), 1)"
  by (simp add: demo_run_judge_error finish_shot_def truthy_def judged_scores_def score_of_def
        judge_error_def)

lemma approved_hero_progress:
  assumes "from_hero_applies job w"
  shows "\<exists>w' rest. generate_project_main env job w = Inr w'
           \<and> progress_history (log w') = progress_history (log w) @
                [Some (JInt 2), Some (JInt 2), Some (JInt 10), Some (JInt 10), Some (JInt 5)] @ rest"
proof -
  let ?n = "int (length (shots_of env job))"
  from main_with_approved_hero [OF assms, of env]
  obtain w' a d shot evs z where m:
    "generate_project_main env job w = Inr w'"
    "log w' = log w @
               [StatusWrite (merged env (parsing_status job) w),
                StatusWrite (merged env (parsed_status env job)
                               (update_status env (parsing_status job) w)),
                StatusWrite (merged env (approved_status ?n) (prepared env job w)),
                StatusWrite d,
                StatusWrite (merged env (shot_status 1 ?n shot) a)]
               @ evs @ [StatusWrite z]"
    "dict_lookup d ''progress'' = Some (JInt 10)"
    by blast
  have s: "progress_history
             [StatusWrite (merged env (parsing_status job) w),
              StatusWrite (merged env (parsed_status env job)
                             (update_status env (parsing_status job) w)),
              StatusWrite (merged env (approved_status ?n) (prepared env job w)),
              StatusWrite d,
              StatusWrite (merged env (shot_status 1 ?n shot) a)]
           = [Some (JInt 2), Some (JInt 2), Some (JInt 10), Some (JInt 10), Some (JInt 5)]"
    by (simp only: progress_history_status progress_parsing progress_parsed progress_approved
          progress_shot first_progress m(3))
  have "progress_history (log w') = progress_history (log w) @
          [Some (JInt 2), Some (JInt 2), Some (JInt 10), Some (JInt 10), Some (JInt 5)]
          @ progress_history (evs @ [StatusWrite z])"
    by (simp only: m(2) progress_history_append s)
  with m(1) show ?thesis by blast
qed

text \<open>
  C2. With \<^verbatim>\<open>--from-hero\<close> naming an existing file, the run succeeds and the progress values
  written to the status file begin 2, 2, 10, 10, 5: the hero stage writes 10, and the first
  shot of the plan then writes \<open>shot_progress 1 total\<close>, which is 5 for a plan of 18 or 20
  shots. The progress written decreases from 10 to 5.
\<close>

theorem progress_falls_after_approved_hero:
  "\<exists>w' rest. generate_project_main (demo_env always_image always_90) approved_job approved_world
                = Inr w'
     \<and> progress_history (log w') =
          [Some (JInt 2), Some (JInt 2), Some (JInt 10), Some (JInt 10), Some (JInt 5)] @ rest"
proof -
  have a: "from_hero_applies approved_job approved_world"
    by (simp add: from_hero_applies_def approved_job_def approved_world_def demo_job_def
          empty_world_def truthy_def)
  have l: "progress_history (log approved_world) = []"
    by (simp add: approved_world_def empty_world_def progress_history_status)
  from approved_hero_progress [OF a, of "demo_env always_image always_90"]
  show ?thesis unfolding l append_Nil .
qed

lemma spares_hero_unjudged:
  assumes "\<forall>e\<in>set evs. spares_hero e"
  shows "\<forall>prof v. Verify prof ''hero_facade'' v \<notin> set evs"
proof (intro allI notI)
  fix prof v assume "Verify prof ''hero_facade'' v \<in> set evs"
  with assms have "spares_hero (Verify prof ''hero_facade'' v)" by blast
  then show False by (simp add: spares_hero_def)
qed

lemma spares_hero_simps:
  "spares_hero (StatusWrite d)" "spares_hero (Generate p r g)"
  by (simp_all add: spares_hero_def)

lemma events_since_append: "log w' = log w @ evs \<Longrightarrow> events_since w w' = evs"
  by (simp add: events_since_def)

text \<open>
  C8. A run of \<^verbatim>\<open>main\<close> returns, and none of the events it adds is a judgement of the hero
  shot. When the hero is synthesised (no usable \<^verbatim>\<open>--from-hero\<close>) and the synthesiser yields an
  image, the manifest's first entry is the hero entry, with score 100, one attempt and
  \<open>lowConfidence\<close> false. When it yields none, the manifest has no image, the status file ends
  with status \<^verbatim>\<open>error\<close>, and the events of the run are three status writes, the hero
  synthesis call and the error write: no other shot is attempted.
\<close>

theorem hero_never_judged:
  assumes "r = image_model env (clock w + 5)
                 (build_hero_generation_prompt env (a_user_prompt job)) None ''16:9''"
    and "e = hero_entry job (''hero_facade_'' @ now_strftime env (clock w + 3) @ ''.png'')
               ''16:9'' (now_isoformat env (clock w + 6))"
  shows "\<exists>w'. generate_project_main env job w = Inr w'
           \<and> (\<forall>prof v. Verify prof ''hero_facade'' v \<notin> set (events_since w w'))
           \<and> (\<not> from_hero_applies job w \<longrightarrow>
                (if truthy r
                 then (\<exists>stored. has_images w' (e # stored))
                      \<and> consistencyScore e = 100 \<and> entry_attempts e = 1 \<and> \<not> lowConfidence e
                 else has_images w' []
                      \<and> (\<exists>a b c d.
                            events_since w w' =
                              [StatusWrite a, StatusWrite b, StatusWrite c,
                               Generate (build_hero_generation_prompt env (a_user_prompt job))
                                 None r,
                               StatusWrite d]
                            \<and> status_json w' = Some d
                            \<and> dict_lookup d ''status'' = Some (JStr ''error''))))"
proof (cases "from_hero_applies job w")
  case True
  from main_with_approved_hero [OF True, of env]
  obtain w' evs0 evs z where m:
    "generate_project_main env job w = Inr w'"
    "log w' = log w @ evs0 @ evs @ [StatusWrite z]"
    "\<forall>e\<in>set evs0. spares_hero e"
    "\<forall>e\<in>set evs. spares_hero e"
  proof -
    from main_with_approved_hero [OF True, of env]
    obtain w' a d shot evs z where m:
      "generate_project_main env job w = Inr w'"
      "log w' = log w @
               [StatusWrite (merged env (parsing_status job) w),
                StatusWrite (merged env (parsed_status env job)
                               (update_status env (parsing_status job) w)),
                StatusWrite (merged env (approved_status (int (length (shots_of env job))))
                               (prepared env job w)),
                StatusWrite d,
                StatusWrite (merged env (shot_status 1 (int (length (shots_of env job))) shot) a)]
               @ evs @ [StatusWrite z]"
      "\<forall>e\<in>set evs. spares_hero e"
      by blast
    have "\<forall>e\<in>set [StatusWrite (merged env (parsing_status job) w),
                StatusWrite (merged env (parsed_status env job)
                               (update_status env (parsing_status job) w)),
                StatusWrite (merged env (approved_status (int (length (shots_of env job))))
                               (prepared env job w)),
                StatusWrite d,
                StatusWrite (merged env (shot_status 1 (int (length (shots_of env job))) shot) a)].
            spares_hero e"
      by (simp add: spares_hero_simps ball_Un)
    with m that show thesis by blast
  qed
  from m(3,4) have "\<forall>e\<in>set (evs0 @ evs @ [StatusWrite z]). spares_hero e"
    by (simp add: spares_hero_simps ball_Un)
  from spares_hero_unjudged [OF this]
  have u: "\<forall>prof v. Verify prof ''hero_facade'' v \<notin> set (events_since w w')"
    unfolding events_since_append [OF m(2)] .
  from m(1) u True show ?thesis by blast
next
  case False
  show ?thesis
  proof (cases "truthy r")
    case True
    from main_with_fresh_hero [OF False assms(1) True]
    obtain w' a b c d evs stored where m:
      "generate_project_main env job w = Inr w'"
      "has_images w' (e # stored)"
      "log w' = log w @
               [StatusWrite a, StatusWrite b, StatusWrite c,
                Generate (build_hero_generation_prompt env (a_user_prompt job)) None r,
                StatusWrite d] @ evs"
      "\<forall>e\<in>set evs. spares_hero e"
      unfolding assms(2) by blast
    from m(4) have "\<forall>e\<in>set ([StatusWrite a, StatusWrite b, StatusWrite c,
                Generate (build_hero_generation_prompt env (a_user_prompt job)) None r,
                StatusWrite d] @ evs). spares_hero e"
      by (simp add: spares_hero_simps ball_Un)
    from spares_hero_unjudged [OF this]
    have u: "\<forall>prof v. Verify prof ''hero_facade'' v \<notin> set (events_since w w')"
      unfolding events_since_append [OF m(3)] .
    have f: "consistencyScore e = 100" "entry_attempts e = 1" "\<not> lowConfidence e"
      by (simp_all add: assms(2) hero_entry_def)
    from m(2) f have p: "(\<exists>stored. has_images w' (e # stored))
                      \<and> consistencyScore e = 100 \<and> entry_attempts e = 1 \<and> \<not> lowConfidence e"
      by blast
    show ?thesis
      apply (rule exI [of _ w'])
      apply (intro conjI impI)
        apply (rule m(1))
       apply (rule u)
      apply (simp only: if_P [OF True])
      apply (rule p)
      done
  next
    case nt: False
    from main_without_hero [OF False assms(1) nt]
    obtain w' a b c d where m:
      "generate_project_main env job w = Inr w'"
      "has_images w' []" "status_json w' = Some d"
      "dict_lookup d ''status'' = Some (JStr ''error'')"
      "log w' = log w @
               [StatusWrite a, StatusWrite b, StatusWrite c,
                Generate (build_hero_generation_prompt env (a_user_prompt job)) None r,
                StatusWrite d]"
      by blast
    have "\<forall>e\<in>set [StatusWrite a, StatusWrite b, StatusWrite c,
                Generate (build_hero_generation_prompt env (a_user_prompt job)) None r,
                StatusWrite d]. spares_hero e"
      by (simp add: spares_hero_simps ball_Un)
    from spares_hero_unjudged [OF this]
    have u: "\<forall>prof v. Verify prof ''hero_facade'' v \<notin> set (events_since w w')"
      unfolding events_since_append [OF m(5)] .
    from events_since_append [OF m(5)] m(2,3,4)
    have p: "has_images w' []
                      \<and> (\<exists>a b c d.
                            events_since w w' =
                              [StatusWrite a, StatusWrite b, StatusWrite c,
                               Generate (build_hero_generation_prompt env (a_user_prompt job))
                                 None r,
                               StatusWrite d]
                            \<and> status_json w' = Some d
                            \<and> dict_lookup d ''status'' = Some (JStr ''error''))"
      by blast
    show ?thesis
      apply (rule exI [of _ w'])
      apply (intro conjI impI)
        apply (rule m(1))
       apply (rule u)
      apply (simp only: if_not_P [OF nt])
      apply (rule p)
      done
  qed
qed

text \<open>
  Witness for C8: the default job in an empty directory, once with a synthesiser that always
  yields an image and once with one that never does.
\<close>

theorem hero_never_judged_witness:
  "(\<exists>w' stored.
      generate_project_main (demo_env always_image always_90) demo_job empty_world = Inr w'
      \<and> has_images w' (hero_entry demo_job ''hero_facade_20260101_000000.png'' ''16:9''
                          ''2026-01-01T00:00:00'' # stored)
      \<and> \<not> (\<exists>prof v. Verify prof ''hero_facade'' v \<in> set (events_since empty_world w')))
   \<and> (\<exists>w' d.
      generate_project_main (demo_env never_image always_90) demo_job empty_world = Inr w'
      \<and> has_images w' [] \<and> status_json w' = Some d
      \<and> dict_lookup d ''status'' = Some (JStr ''error'')
      \<and> length (events_since empty_world w') = 5)"
proof -
  let ?A = "demo_env always_image always_90"
  let ?N = "demo_env never_image always_90"
  let ?e = "hero_entry demo_job ''hero_facade_20260101_000000.png'' ''16:9''
              ''2026-01-01T00:00:00''"
  have n: "\<not> from_hero_applies demo_job empty_world"
    by (simp add: from_hero_applies_def demo_job_def truthy_def)
  have ea: "?e = hero_entry demo_job (''hero_facade_'' @ now_strftime ?A (clock empty_world + 3)
                   @ ''.png'') ''16:9'' (now_isoformat ?A (clock empty_world + 6))"
    by (simp add: demo_env_def)
  have en: "?e = hero_entry demo_job (''hero_facade_'' @ now_strftime ?N (clock empty_world + 3)
                   @ ''.png'') ''16:9'' (now_isoformat ?N (clock empty_world + 6))"
    by (simp add: demo_env_def)
  let ?ra = "image_model ?A (clock empty_world + 5)
               (build_hero_generation_prompt ?A (a_user_prompt demo_job)) None ''16:9''"
  let ?rn = "image_model ?N (clock empty_world + 5)
               (build_hero_generation_prompt ?N (a_user_prompt demo_job)) None ''16:9''"
  have ta: "truthy ?ra" by (simp add: demo_env_def always_image_def truthy_def)
  have tn: "\<not> truthy ?rn" by (simp add: demo_env_def never_image_def truthy_def)
  from hero_never_judged [OF refl ea] n
  obtain wa where a:
    "generate_project_main ?A demo_job empty_world = Inr wa"
    "\<forall>prof v. Verify prof ''hero_facade'' v \<notin> set (events_since empty_world wa)"
    "if truthy ?ra
     then (\<exists>stored. has_images wa (?e # stored))
          \<and> consistencyScore ?e = 100 \<and> entry_attempts ?e = 1 \<and> \<not> lowConfidence ?e
     else has_images wa []
          \<and> (\<exists>a b c d.
                events_since empty_world wa =
                  [StatusWrite a, StatusWrite b, StatusWrite c,
                   Generate (build_hero_generation_prompt ?A (a_user_prompt demo_job)) None ?ra,
                   StatusWrite d]
                \<and> status_json wa = Some d
                \<and> dict_lookup d ''status'' = Some (JStr ''error''))"
    by blast
  from a(3) obtain stored where sa: "has_images wa (?e # stored)"
    unfolding if_P [OF ta] by blast
  from a(1,2) sa have A: "\<exists>w' stored.
      generate_project_main ?A demo_job empty_world = Inr w'
      \<and> has_images w' (?e # stored)
      \<and> \<not> (\<exists>prof v. Verify prof ''hero_facade'' v \<in> set (events_since empty_world w'))"
    by blast
  from hero_never_judged [OF refl en] n
  obtain wn where b:
    "generate_project_main ?N demo_job empty_world = Inr wn"
    "if truthy ?rn
     then (\<exists>stored. has_images wn (?e # stored))
          \<and> consistencyScore ?e = 100 \<and> entry_attempts ?e = 1 \<and> \<not> lowConfidence ?e
     else has_images wn []
          \<and> (\<exists>a b c d.
                events_since empty_world wn =
                  [StatusWrite a, StatusWrite b, StatusWrite c,
                   Generate (build_hero_generation_prompt ?N (a_user_prompt demo_job)) None ?rn,
                   StatusWrite d]
                \<and> status_json wn = Some d
                \<and> dict_lookup d ''status'' = Some (JStr ''error''))"
    by blast
  from b(2) obtain a b c d where sn:
    "has_images wn []"
    "events_since empty_world wn =
       [StatusWrite a, StatusWrite b, StatusWrite c,
        Generate (build_hero_generation_prompt ?N (a_user_prompt demo_job)) None ?rn,
        StatusWrite d]"
    "status_json wn = Some d" "dict_lookup d ''status'' = Some (JStr ''error'')"
    unfolding if_not_P [OF tn] by blast
  have "length (events_since empty_world wn) = 5" unfolding sn(2) by simp
  with b(1) sn(1,3,4) have B: "\<exists>w' d.
      generate_project_main ?N demo_job empty_world = Inr w'
      \<and> has_images w' [] \<and> status_json w' = Some d
      \<and> dict_lookup d ''status'' = Some (JStr ''error'')
      \<and> length (events_since empty_world w') = 5"
    by blast
  from A B show ?thesis by (rule conjI)
qed

section \<open>Regenerating a multi-unit shot\<close>

lemma get_shot_by_id_multi_unit:
  "get_shot_by_id ''multi_unit_variety'' = None"
  "get_shot_by_id ''multi_shared_spaces'' = None"
  by (simp_all add: get_shot_by_id_def SHOT_TYPES_def mk_shot_def)

lemma regenerate_single_main_unknown_shot:
  "get_shot_by_id variation_type = None \<Longrightarrow>
     regenerate_single_main env job_id variation_type output_dir w = Inl (SystemExit 1)"
  by (simp add: regenerate_single_main_def split: option.splits)

lemma multi_unit_shots_planned:
  "variety_shot \<in> set (get_shots_for_project_type ''apartments'' 2)"
  by (simp add: get_shots_for_project_type_def Let_def MULTI_UNIT_EXTRA_SHOTS_def
        variety_shot_def mk_shot_def)

text \<open>
  C9. The shot \<^verbatim>\<open>multi_unit_variety\<close> is in the plan of an apartments job, has an aspect
  ratio in \<^verbatim>\<open>regenerate_single.py\<close>'s own table, and here has a manifest entry (id
  \<^verbatim>\<open>j_19\<close>). \<^verbatim>\<open>get_shot_by_id\<close> searches \<^verbatim>\<open>SHOT_TYPES\<close> only and does not find it, so
  \<^verbatim>\<open>regenerate_single.main\<close> exits with status 1 before it generates anything: the entry is
  not replaced.
\<close>

theorem regeneration_rejects_multi_unit_shot:
  "variety_shot \<in> set (get_shots_for_project_type ''apartments'' 2)
   \<and> sh_id variety_shot = ''multi_unit_variety''
   \<and> get_aspect_ratio_for_shot ''multi_unit_variety'' = ''16:9''
   \<and> find (\<lambda>img. variationType img = ''multi_unit_variety'')
         [hero_image_entry, variety_image_entry] = Some variety_image_entry
   \<and> entry_id variety_image_entry = Some ''j_19''
   \<and> get_shot_by_id ''multi_unit_variety'' = None
   \<and> regenerate_single_main (demo_env always_image always_90) ''j'' ''multi_unit_variety'' ''out''
         (regen_world [hero_image_entry, variety_image_entry]) = Inl (SystemExit 1)"
proof -
  have a: "sh_id variety_shot = ''multi_unit_variety''"
    by (simp add: variety_shot_def mk_shot_def)
  have b: "get_aspect_ratio_for_shot ''multi_unit_variety'' = ''16:9''"
    by (simp add: get_aspect_ratio_for_shot_def Let_def)
  have c: "variationType hero_image_entry = ''hero_facade''"
    "variationType variety_image_entry = ''multi_unit_variety''"
    by (simp_all add: hero_image_entry_def hero_entry_def variety_image_entry_def shot_entry_def
          Let_def a)
  have d: "find (\<lambda>img. variationType img = ''multi_unit_variety'')
         [hero_image_entry, variety_image_entry] = Some variety_image_entry"
    by (simp add: c)
  have e: "entry_id variety_image_entry = Some ''j_19''"
    by (simp add: variety_image_entry_def shot_entry_def Let_def demo_job_def str_int_def
          digits.simps)
  from multi_unit_shots_planned a b d e get_shot_by_id_multi_unit(1)
    regenerate_single_main_unknown_shot [OF get_shot_by_id_multi_unit(1)]
  show ?thesis by blast
qed

end
